theory Spec2Isabelle
  imports Main "HOL-Library.Word"
begin

section \<open>Go values, errors and the standard library\<close>

text \<open>
  Go's \<open>int\<close> (on the 64-bit targets the agent is built for) and \<open>int64\<close> are 64-bit
  words. A \<open>float64\<close> is carried as its IEEE-754 bit pattern: the agent never computes
  with the two floating-point fields of a snapshot, it only stores and encodes them.
  The zero value of either type is the word \<open>0\<close>.
\<close>

type_synonym int64 = "64 word"
type_synonym float64 = "64 word"
type_synonym byte = "8 word"

text \<open>
  An \<open>error\<close> value: one raised by the operating system or a library, one built by
  \<open>fmt.Errorf("...: %s", s)\<close>, or one wrapped by \<open>fmt.Errorf("...: %w", err)\<close>.
\<close>

datatype error = OsError string | Msg string | Wrapped string error

subsection \<open>\<open>strings.TrimSpace\<close>\<close>

text \<open>
  The UTF-8 encodings of the runes for which \<open>unicode.IsSpace\<close> holds: the six ASCII
  ones, U+0085, U+00A0, U+1680, U+2000 to U+200A, U+2028, U+2029, U+202F, U+205F, U+3000.
\<close>

definition space_runes :: "string list" where
  "space_runes =
     [[CHR 0x09], [CHR 0x0A], [CHR 0x0B], [CHR 0x0C], [CHR 0x0D], [CHR 0x20],
      [CHR 0xC2, CHR 0x85], [CHR 0xC2, CHR 0xA0],
      [CHR 0xE1, CHR 0x9A, CHR 0x80],
      [CHR 0xE2, CHR 0x80, CHR 0x80], [CHR 0xE2, CHR 0x80, CHR 0x81],
      [CHR 0xE2, CHR 0x80, CHR 0x82], [CHR 0xE2, CHR 0x80, CHR 0x83],
      [CHR 0xE2, CHR 0x80, CHR 0x84], [CHR 0xE2, CHR 0x80, CHR 0x85],
      [CHR 0xE2, CHR 0x80, CHR 0x86], [CHR 0xE2, CHR 0x80, CHR 0x87],
      [CHR 0xE2, CHR 0x80, CHR 0x88], [CHR 0xE2, CHR 0x80, CHR 0x89],
      [CHR 0xE2, CHR 0x80, CHR 0x8A],
      [CHR 0xE2, CHR 0x80, CHR 0xA8], [CHR 0xE2, CHR 0x80, CHR 0xA9],
      [CHR 0xE2, CHR 0x80, CHR 0xAF], [CHR 0xE2, CHR 0x81, CHR 0x9F],
      [CHR 0xE3, CHR 0x80, CHR 0x80]]"

text \<open>The width in bytes of the space rune a string starts (ends) with; 0 when it has none.\<close>

definition leading_space :: "string \<Rightarrow> nat" where
  "leading_space s =
     (case filter (\<lambda>p. take (length p) s = p) space_runes of
        [] \<Rightarrow> 0
      | p # _ \<Rightarrow> length p)"

definition trailing_space :: "string \<Rightarrow> nat" where
  "trailing_space s =
     (case filter (\<lambda>p. length p \<le> length s \<and> drop (length s - length p) s = p) space_runes of
        [] \<Rightarrow> 0
      | p # _ \<Rightarrow> length p)"

function TrimLeft :: "string \<Rightarrow> string" where
  "TrimLeft s = (if leading_space s = 0 then s else TrimLeft (drop (leading_space s) s))"
  by pat_completeness auto
termination
proof (relation "measure length")
  show "wf (measure length)" by simp
next
  fix s :: string
  assume pos: "leading_space s \<noteq> 0"
  have "leading_space s \<le> length s"
  proof (cases "filter (\<lambda>p. take (length p) s = p) space_runes")
    case Nil
    then show ?thesis by (simp add: leading_space_def)
  next
    case (Cons p ps)
    then have "p \<in> set (filter (\<lambda>p. take (length p) s = p) space_runes)" by simp
    then have "take (length p) s = p" by simp
    then have "length p \<le> length s" by (metis length_take min.cobounded1)
    with Cons show ?thesis by (simp add: leading_space_def)
  qed
  with pos show "(drop (leading_space s) s, s) \<in> measure length" by simp
qed

function TrimRight :: "string \<Rightarrow> string" where
  "TrimRight s =
     (if trailing_space s = 0 then s else TrimRight (take (length s - trailing_space s) s))"
  by pat_completeness auto
termination
proof (relation "measure length")
  show "wf (measure length)" by simp
next
  fix s :: string
  assume pos: "trailing_space s \<noteq> 0"
  let ?f = "filter (\<lambda>p. length p \<le> length s \<and> drop (length s - length p) s = p) space_runes"
  have "trailing_space s \<le> length s"
  proof (cases ?f)
    case Nil
    then show ?thesis by (simp add: trailing_space_def)
  next
    case (Cons p ps)
    then have "p \<in> set ?f" by simp
    then have "length p \<le> length s" by simp
    with Cons show ?thesis by (simp add: trailing_space_def)
  qed
  with pos show "(take (length s - trailing_space s) s, s) \<in> measure length" by simp
qed

declare TrimLeft.simps [simp del] TrimRight.simps [simp del]

definition TrimSpace :: "string \<Rightarrow> string" where
  "TrimSpace s = TrimRight (TrimLeft s)"

subsection \<open>\<open>fmt.Sprintf("%X", hash)\<close> on a byte array\<close>

definition udigits :: string where
  "udigits = ''0123456789ABCDEF''"

definition sprintf_X :: "byte list \<Rightarrow> string" where
  "sprintf_X bs = concat (map (\<lambda>b. [udigits ! (unat b div 16), udigits ! (unat b mod 16)]) bs)"

section \<open>The data model\<close>

record LicenseInfo =
  LicenseKey :: string
  ISPID :: int64
  ExpiresAt :: string
  Modules :: "string list"
  Status :: string

record ValidateRequest =
  vr_LicenseKey :: string
  vr_HWID :: string

record ValidateResponse =
  v_Success :: bool
  v_Data :: LicenseInfo
  v_Error :: string

record TelemetryData =
  t_ISPID :: int64
  CacheHits :: int64
  CacheMisses :: int64
  BandwidthSaved :: int64
  TotalRequests :: int64
  CacheSizeUsed :: int64
  CPUUsage :: float64
  MemoryUsage :: float64

record SiteData =
  s_ISPID :: int64
  Domain :: string
  Hits :: int64
  s_BandwidthSaved :: int64

text \<open>The \<open>Data interface{}\<close> field of \<open>telemetry.Response\<close> is never read and is left out.\<close>

record Response =
  r_Success :: bool
  r_Message :: string
  r_Error :: string

record VersionInfo =
  ID :: int64
  Version :: string
  DownloadURL :: string
  Checksum :: string
  ReleaseNotes :: string
  IsStable :: bool
  CreatedAt :: int

record APIResponse =
  a_Success :: bool
  a_Data :: VersionInfo
  a_Error :: string

record Config =
  SaasURL :: string
  c_LicenseKey :: string
  ISPName :: string
  ServerIP :: string
  HWID :: string
  c_ISPID :: int64
  TelemetryInt :: int64

record CacheStats =
  cs_Hits :: int64
  cs_Misses :: int64
  BytesServed :: int64
  cs_CacheSizeUsed :: int64
  cs_TotalRequests :: int64

record SystemStats =
  ss_CPUUsage :: float64
  ss_MemoryUsage :: float64

text \<open>
  The library functions the agent calls whose code is not part of the repository
  (\<open>crypto/md5\<close>, \<open>time.Parse\<close> with the \<open>time.RFC3339\<close> layout, \<open>encoding/json\<close>)
  are parameters of the model, collected in one record. An instant is an integer count of
  nanoseconds. \<open>json_Decode_Response\<close> is the struct left in \<open>result\<close> by the
  \<open>Decode\<close> call of \<open>telemetry.Send\<close>, whose error that function ignores.
\<close>

record stdlib =
  md5_Sum :: "string \<Rightarrow> byte list"
  time_Parse_RFC3339 :: "string \<Rightarrow> error + int"
  json_Decode_ValidateResponse :: "string \<Rightarrow> error + ValidateResponse"
  json_Decode_APIResponse :: "string \<Rightarrow> error + APIResponse"
  json_Decode_Response :: "string \<Rightarrow> Response"
  json_Unmarshal_Config :: "string \<Rightarrow> error + Config"
  json_MarshalIndent_Config :: "Config \<Rightarrow> string"

section \<open>The host and the network\<close>

text \<open>
  An HTTP request as the agent issues it. The JSON text of a request body is determined
  by the struct that is marshalled, so the body is that struct.
\<close>

datatype payload =
  NoBody
  | ValidateJSON ValidateRequest
  | TelemetryJSON TelemetryData
  | SiteJSON SiteData

record http_request =
  req_method :: string
  req_url :: string
  req_body :: payload

record http_response =
  StatusCode :: nat
  Body :: string

text \<open>
  What the agent does to the outside: calls of the HTTP client, pauses (in seconds),
  a service restart.
\<close>

datatype event = HTTP http_request | Sleep nat | Restart

text \<open>
  \<open>sys\<close> is what the host answers and the agent cannot change: the results of
  \<open>os.Executable\<close>, \<open>os.Hostname\<close> and of the \<open>ip link show\<close> pipeline, the clock, and
  which file operations the host refuses. \<open>copy_fault = Some n\<close> makes \<open>io.Copy\<close> fail
  after \<open>n\<close> bytes. The file operations of one call of \<open>DownloadAndInstall\<close> all
  have different arguments, so a refusal stated on the arguments stands for any pattern
  of failures over the call, also one that depends only on when the operation happens.
  \<open>world\<close> is what the agent changes or consumes: the files (a path is
  present when it can be read), the results of the HTTP calls still to come, in order,
  and the record of what was done.
\<close>

record sys =
  os_Executable :: "error + string"
  os_Hostname :: "error + string"
  ip_link_ether :: "error + string"
  write_denied :: "string \<Rightarrow> bool"
  copy_fault :: "nat option"
  chmod_denied :: "string \<Rightarrow> bool"
  rename_denied :: "string \<Rightarrow> string \<Rightarrow> bool"
  time_Now :: int

record world =
  files :: "string \<rightharpoonup> string"
  replies :: "(error + http_response) list"
  trace :: "event list"

definition os_ReadFile :: "string \<Rightarrow> world \<Rightarrow> error + string" where
  "os_ReadFile path w =
     (case files w path of
        None \<Rightarrow> Inl (OsError ''open: no such file or directory'')
      | Some data \<Rightarrow> Inr data)"

text \<open>A refused write is a refused open: nothing is written.\<close>

definition os_WriteFile :: "sys \<Rightarrow> string \<Rightarrow> string \<Rightarrow> world \<Rightarrow> error option \<times> world" where
  "os_WriteFile s path data w =
     (if write_denied s path then (Some (OsError ''open: permission denied''), w)
      else (None, w\<lparr>files := (files w)(path \<mapsto> data)\<rparr>))"

text \<open>\<open>os.Create\<close> opens with \<open>O_CREATE|O_TRUNC\<close>: the file exists and is empty afterwards.\<close>

definition os_Create :: "sys \<Rightarrow> string \<Rightarrow> world \<Rightarrow> error option \<times> world" where
  "os_Create s path w =
     (if write_denied s path then (Some (OsError ''open: permission denied''), w)
      else (None, w\<lparr>files := (files w)(path \<mapsto> [])\<rparr>))"

text \<open>\<open>io.Copy(out, resp.Body)\<close> into the file just created at \<open>path\<close>.\<close>

definition io_Copy :: "sys \<Rightarrow> string \<Rightarrow> string \<Rightarrow> world \<Rightarrow> error option \<times> world" where
  "io_Copy s path data w =
     (case copy_fault s of
        None \<Rightarrow> (None, w\<lparr>files := (files w)(path \<mapsto> data)\<rparr>)
      | Some n \<Rightarrow> (Some (OsError ''copy: short write''),
                   w\<lparr>files := (files w)(path \<mapsto> take n data)\<rparr>))"

text \<open>Permission bits are not part of \<open>files\<close>: \<open>os.Chmod\<close> only succeeds or fails.\<close>

definition os_Chmod :: "sys \<Rightarrow> string \<Rightarrow> world \<Rightarrow> error option" where
  "os_Chmod s path w =
     (if chmod_denied s path then Some (OsError ''chmod: operation not permitted'')
      else if files w path = None then Some (OsError ''chmod: no such file or directory'')
      else None)"

text \<open>\<open>os.Rename\<close> replaces the destination; a failed rename changes nothing.\<close>

definition os_Rename :: "sys \<Rightarrow> string \<Rightarrow> string \<Rightarrow> world \<Rightarrow> error option \<times> world" where
  "os_Rename s src dst w =
     (if rename_denied s src dst then (Some (OsError ''rename: permission denied''), w)
      else case files w src of
        None \<Rightarrow> (Some (OsError ''rename: no such file or directory''), w)
      | Some data \<Rightarrow> (None, w\<lparr>files := ((files w)(src := None))(dst \<mapsto> data)\<rparr>))"

text \<open>
  The scheme of a URL as \<open>net/url\<close> reads it: the letters, digits, \<open>+\<close>, \<open>-\<close> and
  \<open>.\<close> before the first colon, beginning with a letter, in lower case; empty when the
  URL has no such prefix. The HTTP client sends a request only when the scheme is
  \<open>http\<close> or \<open>https\<close>.
\<close>

definition is_letter :: "char \<Rightarrow> bool" where
  "is_letter c =
     ((97 \<le> (of_char c :: nat) \<and> (of_char c :: nat) \<le> 122)
      \<or> (65 \<le> (of_char c :: nat) \<and> (of_char c :: nat) \<le> 90))"

definition is_digit :: "char \<Rightarrow> bool" where
  "is_digit c = (48 \<le> (of_char c :: nat) \<and> (of_char c :: nat) \<le> 57)"

definition to_lower :: "char \<Rightarrow> char" where
  "to_lower c =
     (if 65 \<le> (of_char c :: nat) \<and> (of_char c :: nat) \<le> 90
      then char_of ((of_char c :: nat) + 32) else c)"

fun getScheme :: "bool \<Rightarrow> string \<Rightarrow> string \<Rightarrow> string" where
  "getScheme first acc [] = []"
| "getScheme first acc (c # cs) =
     (if is_letter c then getScheme False (acc @ [c]) cs
      else if is_digit c \<or> c = CHR ''+'' \<or> c = CHR ''-'' \<or> c = CHR ''.''
      then (if first then [] else getScheme False (acc @ [c]) cs)
      else if c = CHR '':'' then (if first then [] else acc)
      else [])"

definition url_scheme :: "string \<Rightarrow> string" where
  "url_scheme u = map to_lower (getScheme True [] u)"

definition scheme_supported :: "string \<Rightarrow> bool" where
  "scheme_supported u = (url_scheme u = ''http'' \<or> url_scheme u = ''https'')"

text \<open>
  One call of the HTTP client. The call is recorded with its request. A URL whose
  scheme is not supported fails before anything is sent and uses up no scripted result;
  otherwise the next scripted result is the outcome, and when none is left the transport
  fails.
\<close>

definition http_do :: "http_request \<Rightarrow> world \<Rightarrow> (error + http_response) \<times> world" where
  "http_do rq w =
     (if \<not> scheme_supported (req_url rq)
      then (Inl (OsError ''unsupported protocol scheme''), w\<lparr>trace := trace w @ [HTTP rq]\<rparr>)
      else case replies w of
        [] \<Rightarrow> (Inl (OsError ''dial: network is unreachable''), w\<lparr>trace := trace w @ [HTTP rq]\<rparr>)
      | r # rs \<Rightarrow> (r, w\<lparr>replies := rs, trace := trace w @ [HTTP rq]\<rparr>))"

definition http_Post :: "string \<Rightarrow> payload \<Rightarrow> world \<Rightarrow> (error + http_response) \<times> world" where
  "http_Post u b w = http_do \<lparr>req_method = ''POST'', req_url = u, req_body = b\<rparr> w"

definition http_Get :: "string \<Rightarrow> world \<Rightarrow> (error + http_response) \<times> world" where
  "http_Get u w = http_do \<lparr>req_method = ''GET'', req_url = u, req_body = NoBody\<rparr> w"

definition time_Sleep :: "nat \<Rightarrow> world \<Rightarrow> world" where
  "time_Sleep n w = w\<lparr>trace := trace w @ [Sleep n]\<rparr>"

section \<open>Package \<open>hwid\<close>\<close>

definition readFile :: "string \<Rightarrow> world \<Rightarrow> error + string" where
  "readFile path w =
     (case os_ReadFile path w of
        Inl err \<Rightarrow> Inl err
      | Inr data \<Rightarrow> Inr (TrimSpace data))"

definition getMACAddress :: "sys \<Rightarrow> error + string" where
  "getMACAddress s =
     (case ip_link_ether s of
        Inl err \<Rightarrow> Inl err
      | Inr output \<Rightarrow>
          (let mac = TrimSpace output
           in if mac = [] then Inr ''00:00:00:00:00:00'' else Inr mac))"

text \<open>
  The three steps of \<open>Generate\<close>: the variable \<open>machineID\<close> (the error of
  \<open>os.Hostname\<close> is dropped, which leaves the empty string), the variable \<open>mac\<close>, and
  the string \<open>combined\<close> that is hashed. \<open>Generate\<close> never returns an error.
\<close>

definition Generate_machineID :: "sys \<Rightarrow> world \<Rightarrow> string" where
  "Generate_machineID s w =
     (case readFile ''/etc/machine-id'' w of
        Inr machineID \<Rightarrow> machineID
      | Inl _ \<Rightarrow>
          (case readFile ''/var/lib/dbus/machine-id'' w of
             Inr machineID \<Rightarrow> machineID
           | Inl _ \<Rightarrow> (case os_Hostname s of Inr name \<Rightarrow> name | Inl _ \<Rightarrow> [])))"

definition Generate_mac :: "sys \<Rightarrow> string" where
  "Generate_mac s = (case getMACAddress s of Inl _ \<Rightarrow> ''unknown'' | Inr mac \<Rightarrow> mac)"

definition Generate_combined :: "sys \<Rightarrow> world \<Rightarrow> string" where
  "Generate_combined s w = Generate_machineID s w @ ''-'' @ Generate_mac s"

definition Generate :: "stdlib \<Rightarrow> sys \<Rightarrow> world \<Rightarrow> error + string" where
  "Generate L s w =
     (let combined = Generate_combined s w;
          hash = md5_Sum L combined;
          hwid = ''ISP-'' @ sprintf_X hash
      in Inr hwid)"

definition Save :: "sys \<Rightarrow> string \<Rightarrow> world \<Rightarrow> error option \<times> world" where
  "Save s hwid w = os_WriteFile s ''/etc/isp-agent/hwid'' hwid w"

definition Load :: "world \<Rightarrow> error + string" where
  "Load w =
     (case os_ReadFile ''/etc/isp-agent/hwid'' w of
        Inl err \<Rightarrow> Inl err
      | Inr data \<Rightarrow> Inr (TrimSpace data))"

text \<open>
  \<open>GetOrCreate\<close> returns both a string and an error. \<open>os.MkdirAll\<close>, whose error is
  dropped, has no effect on \<open>files\<close>.
\<close>

definition GetOrCreate :: "stdlib \<Rightarrow> sys \<Rightarrow> world \<Rightarrow> (string \<times> error option) \<times> world" where
  "GetOrCreate L s w =
     (let loaded = Load w
      in if \<not> isl loaded \<and> projr loaded \<noteq> [] then ((projr loaded, None), w)
         else case Generate L s w of
           Inl err \<Rightarrow> (([], Some err), w)
         | Inr hwid \<Rightarrow>
             (case Save s hwid w of
                (Some err, w') \<Rightarrow> ((hwid, Some err), w')
              | (None, w') \<Rightarrow> ((hwid, None), w')))"

section \<open>Package \<open>license\<close>\<close>

definition Validate ::
  "stdlib \<Rightarrow> string \<Rightarrow> string \<Rightarrow> string \<Rightarrow> world \<Rightarrow> (error + LicenseInfo) \<times> world" where
  "Validate L saasURL licenseKey hwid w =
     (let u = saasURL @ ''/api/licenses/validate'';
          reqData = \<lparr>vr_LicenseKey = licenseKey, vr_HWID = hwid\<rparr>
      in case http_Post u (ValidateJSON reqData) w of
           (Inl err, w') \<Rightarrow> (Inl (Wrapped ''failed to connect to SaaS'' err), w')
         | (Inr resp, w') \<Rightarrow>
             (case json_Decode_ValidateResponse L (Body resp) of
                Inl err \<Rightarrow> (Inl (Wrapped ''failed to parse response'' err), w')
              | Inr result \<Rightarrow>
                  if \<not> v_Success result
                  then (Inl (Msg (''license validation failed: '' @ v_Error result)), w')
                  else (Inr (v_Data result), w')))"

definition IsExpired :: "stdlib \<Rightarrow> sys \<Rightarrow> string \<Rightarrow> bool" where
  "IsExpired L s expiresAt =
     (case time_Parse_RFC3339 L expiresAt of
        Inl _ \<Rightarrow> True
      | Inr expiry \<Rightarrow> time_Now s > expiry)"

definition LoadConfig :: "world \<Rightarrow> error + string" where
  "LoadConfig w =
     (case os_ReadFile ''/etc/isp-agent/license.key'' w of
        Inl err \<Rightarrow> Inl err
      | Inr data \<Rightarrow> Inr (TrimSpace data))"

definition SaveConfig :: "sys \<Rightarrow> string \<Rightarrow> world \<Rightarrow> error option \<times> world" where
  "SaveConfig s licenseKey w = os_WriteFile s ''/etc/isp-agent/license.key'' licenseKey w"

section \<open>Package \<open>telemetry\<close>\<close>

text \<open>
  \<open>json.Marshal\<close> of a \<open>TelemetryData\<close> fails exactly when a floating-point field is
  a NaN or an infinity, that is when its eleven exponent bits are all set.
\<close>

definition float_finite :: "float64 \<Rightarrow> bool" where
  "float_finite f = (take_bit 11 (drop_bit 52 f) \<noteq> (2047 :: 64 word))"

definition json_Marshal_TelemetryData :: "TelemetryData \<Rightarrow> error + payload" where
  "json_Marshal_TelemetryData d =
     (if float_finite (CPUUsage d) \<and> float_finite (MemoryUsage d) then Inr (TelemetryJSON d)
      else Inl (Msg ''json: unsupported value''))"

definition Send :: "stdlib \<Rightarrow> string \<Rightarrow> TelemetryData \<Rightarrow> world \<Rightarrow> error option \<times> world" where
  "Send L saasURL d w =
     (let u = saasURL @ ''/api/telemetry''
      in case json_Marshal_TelemetryData d of
           Inl err \<Rightarrow> (Some (Wrapped ''failed to marshal data'' err), w)
         | Inr jsonData \<Rightarrow>
             (case http_Post u jsonData w of
                (Inl err, w') \<Rightarrow> (Some (Wrapped ''failed to send telemetry'' err), w')
              | (Inr resp, w') \<Rightarrow>
                  if StatusCode resp \<noteq> 201 \<and> StatusCode resp \<noteq> 200
                  then (Some (Msg (''server returned error: ''
                                   @ r_Error (json_Decode_Response L (Body resp)))), w')
                  else (None, w')))"

definition SendCachedSite :: "string \<Rightarrow> SiteData \<Rightarrow> world \<Rightarrow> error option \<times> world" where
  "SendCachedSite saasURL d w =
     (let u = saasURL @ ''/api/sites/report''
      in case http_Post u (SiteJSON d) w of
           (Inl err, w') \<Rightarrow> (Some err, w')
         | (Inr resp, w') \<Rightarrow> (None, w'))"

text \<open>The zero value \<open>TelemetryData{}\<close>.\<close>

definition TelemetryData_zero :: TelemetryData where
  "TelemetryData_zero =
     \<lparr>t_ISPID = 0, CacheHits = 0, CacheMisses = 0, BandwidthSaved = 0, TotalRequests = 0,
      CacheSizeUsed = 0, CPUUsage = 0, MemoryUsage = 0\<rparr>"

text \<open>
  One tick. \<open>collected\<close> is what the call \<open>collectFunc()\<close> returns on this tick.
\<close>

definition sendTelemetry ::
  "stdlib \<Rightarrow> string \<Rightarrow> int64 \<Rightarrow> (error + TelemetryData) \<Rightarrow> world \<Rightarrow> world" where
  "sendTelemetry L saasURL ispID collected w =
     (let d = (case collected of Inl _ \<Rightarrow> TelemetryData_zero | Inr d0 \<Rightarrow> d0);
          d = d\<lparr>t_ISPID := ispID\<rparr>
      in case Send L saasURL d w of
           (Some _, w1) \<Rightarrow> snd (Send L saasURL d (time_Sleep 5 w1))
         | (None, w1) \<Rightarrow> w1)"

text \<open>
  \<open>StartTelemetryLoop\<close> never returns. The model runs a prefix of it: the immediate
  first send and then one tick for each further result of \<open>collectFunc()\<close> supplied.
  \<open>time.NewTicker\<close> panics on an interval that is not positive, before anything is
  sent; the interval is in seconds.
\<close>

fun ticker_loop ::
  "stdlib \<Rightarrow> string \<Rightarrow> int64 \<Rightarrow> (error + TelemetryData) list \<Rightarrow> world \<Rightarrow> world" where
  "ticker_loop L saasURL ispID [] w = w"
| "ticker_loop L saasURL ispID (c # cs) w =
     ticker_loop L saasURL ispID cs (sendTelemetry L saasURL ispID c w)"

definition StartTelemetryLoop ::
  "stdlib \<Rightarrow> string \<Rightarrow> int64 \<Rightarrow> int \<Rightarrow> (error + TelemetryData)
     \<Rightarrow> (error + TelemetryData) list \<Rightarrow> world \<Rightarrow> error + world" where
  "StartTelemetryLoop L saasURL ispID interval first ticks w =
     (if interval \<le> 0 then Inl (Msg ''panic: non-positive interval for NewTicker'')
      else Inr (ticker_loop L saasURL ispID ticks (sendTelemetry L saasURL ispID first w)))"

section \<open>Package \<open>updater\<close>\<close>

definition CurrentVersion :: string where
  "CurrentVersion = ''1.0.0''"

definition CheckForUpdates ::
  "stdlib \<Rightarrow> string \<Rightarrow> world \<Rightarrow> (error + VersionInfo \<times> bool) \<times> world" where
  "CheckForUpdates L saasURL w =
     (let u = saasURL @ ''/api/agent/version/latest''
      in case http_Get u w of
           (Inl err, w') \<Rightarrow> (Inl (Wrapped ''failed to check for updates'' err), w')
         | (Inr resp, w') \<Rightarrow>
             (case json_Decode_APIResponse L (Body resp) of
                Inl err \<Rightarrow> (Inl (Wrapped ''failed to parse response'' err), w')
              | Inr apiResp \<Rightarrow>
                  if \<not> a_Success apiResp
                  then (Inl (Msg (''API error: '' @ a_Error apiResp)), w')
                  else (let needsUpdate = (Version (a_Data apiResp) \<noteq> CurrentVersion)
                        in (Inr (a_Data apiResp, needsUpdate), w'))))"

text \<open>
  The result of \<open>systemctl restart isp-agent\<close> only selects what is printed, so the
  restart is recorded and its result is not modelled.
\<close>

definition DownloadAndInstall :: "sys \<Rightarrow> VersionInfo \<Rightarrow> world \<Rightarrow> error option \<times> world" where
  "DownloadAndInstall s version w =
     (case os_Executable s of
        Inl err \<Rightarrow> (Some (Wrapped ''failed to get executable path'' err), w)
      | Inr exePath \<Rightarrow>
          (let tempFile = exePath @ ''.new''
           in case http_Get (DownloadURL version) w of
                (Inl err, w1) \<Rightarrow> (Some (Wrapped ''failed to download'' err), w1)
              | (Inr resp, w1) \<Rightarrow>
                  (case os_Create s tempFile w1 of
                     (Some err, w2) \<Rightarrow> (Some (Wrapped ''failed to create temp file'' err), w2)
                   | (None, w2) \<Rightarrow>
                       (case io_Copy s tempFile (Body resp) w2 of
                          (Some err, w3) \<Rightarrow> (Some (Wrapped ''failed to write file'' err), w3)
                        | (None, w3) \<Rightarrow>
                            (case os_Chmod s tempFile w3 of
                               Some err \<Rightarrow> (Some (Wrapped ''failed to set permissions'' err), w3)
                             | None \<Rightarrow>
                                 (let backupFile = exePath @ ''.backup''
                                  in case os_Rename s exePath backupFile w3 of
                                       (Some err, w4) \<Rightarrow>
                                         (Some (Wrapped ''failed to backup old version'' err), w4)
                                     | (None, w4) \<Rightarrow>
                                         (case os_Rename s tempFile exePath w4 of
                                            (Some err, w5) \<Rightarrow>
                                              (Some (Wrapped ''failed to install new version'' err),
                                               snd (os_Rename s backupFile exePath w5))
                                          | (None, w5) \<Rightarrow>
                                              (None, w5\<lparr>trace := trace w5 @ [Restart]\<rparr>))))))))"

section \<open>The two entry points\<close>

text \<open>
  What a run of \<open>main\<close> comes to: the process exits with a status (\<open>log.Fatalf\<close> exits
  with 1, a panic with 2, a return from \<open>main\<close> with 0), or it has started its loops
  and waits for a signal. A \<open>task\<close> is a loop with the arguments it was started with
  (durations in seconds).
\<close>

datatype task =
  StartupUpdateCheck string nat
  | UpdateLoop string nat
  | TelemetryLoop string int64 nat
  | ReportLoop Config

datatype outcome = Exited nat | Running "task list"

subsection \<open>\<open>cmd/agent/main.go\<close>\<close>

definition loadConfig :: "stdlib \<Rightarrow> string \<Rightarrow> world \<Rightarrow> error + Config" where
  "loadConfig L path w =
     (case os_ReadFile path w of
        Inl err \<Rightarrow> Inl err
      | Inr data \<Rightarrow> json_Unmarshal_Config L data)"

text \<open>
  One call of \<open>collectAndSend\<close> under the global \<open>config\<close>. \<open>cache\<close>, \<open>system\<close> and
  \<open>domains\<close> are what \<open>nginx.GetCacheStats\<close>, \<open>nginx.GetSystemStats\<close> and
  \<open>nginx.GetTopDomains\<close> return on this call; the map of domains is the list of its
  entries in the order the \<open>range\<close> loop visits them.
\<close>

definition collectAndSend ::
  "stdlib \<Rightarrow> Config \<Rightarrow> (error + CacheStats) \<Rightarrow> (error + SystemStats)
     \<Rightarrow> (error + (string \<times> int64) list) \<Rightarrow> world \<Rightarrow> world" where
  "collectAndSend L config cache system domains w =
     (case cache of
        Inl _ \<Rightarrow> w
      | Inr cacheStats \<Rightarrow>
          (let sysStats = (case system of
                             Inl _ \<Rightarrow> \<lparr>ss_CPUUsage = 0, ss_MemoryUsage = 0\<rparr>
                           | Inr st \<Rightarrow> st);
               avgFileSize = (2 :: int64);
               bandwidthSaved = cs_Hits cacheStats * avgFileSize;
               d = \<lparr>t_ISPID = c_ISPID config,
                    CacheHits = cs_Hits cacheStats,
                    CacheMisses = cs_Misses cacheStats,
                    BandwidthSaved = bandwidthSaved,
                    TotalRequests = cs_TotalRequests cacheStats,
                    CacheSizeUsed = cs_CacheSizeUsed cacheStats,
                    CPUUsage = ss_CPUUsage sysStats,
                    MemoryUsage = ss_MemoryUsage sysStats\<rparr>
           in case Send L (SaasURL config) d w of
                (Some _, w1) \<Rightarrow> w1
              | (None, w1) \<Rightarrow>
                  (case domains of
                     Inl _ \<Rightarrow> w1
                   | Inr ds \<Rightarrow>
                       fold (\<lambda>(domain, hits) w'.
                               snd (SendCachedSite (SaasURL config)
                                      \<lparr>s_ISPID = c_ISPID config, Domain = domain, Hits = hits,
                                       s_BandwidthSaved = hits * avgFileSize\<rparr> w'))
                            ds w1)))"

text \<open>
  \<open>installAgent\<close>: \<open>answers\<close> holds what the four \<open>fmt.Scanln\<close> calls leave in the
  variables \<open>saasURL\<close>, \<open>licenseKey\<close>, \<open>ispName\<close> and \<open>serverIP\<close>.
\<close>

record answers =
  in_saasURL :: string
  in_licenseKey :: string
  in_ispName :: string
  in_serverIP :: string

definition installAgent :: "stdlib \<Rightarrow> sys \<Rightarrow> answers \<Rightarrow> world \<Rightarrow> error option \<times> world" where
  "installAgent L s ans w =
     (case GetOrCreate L s w of
        ((hwid, Some err), w1) \<Rightarrow> (Some (Wrapped ''failed to generate HWID'' err), w1)
      | ((hwid, None), w1) \<Rightarrow>
          (case Validate L (in_saasURL ans) (in_licenseKey ans) hwid w1 of
             (Inl err, w2) \<Rightarrow> (Some (Wrapped ''license validation failed'' err), w2)
           | (Inr licenseInfo, w2) \<Rightarrow>
               (let config = \<lparr>SaasURL = in_saasURL ans, c_LicenseKey = in_licenseKey ans,
                              ISPName = in_ispName ans, ServerIP = in_serverIP ans,
                              HWID = hwid, c_ISPID = ISPID licenseInfo, TelemetryInt = 60\<rparr>;
                    configJSON = json_MarshalIndent_Config L config
                in case os_WriteFile s ''/etc/isp-agent/config.json'' configJSON w2 of
                     (Some err, w3) \<Rightarrow> (Some (Wrapped ''failed to save config'' err), w3)
                   | (None, w3) \<Rightarrow> (None, snd (SaveConfig s (in_licenseKey ans) w3)))))"

text \<open>
  \<open>main\<close> of \<open>cmd/agent/main.go\<close>, up to the point where it enters its reporting loop.
  \<open>time.NewTicker\<close> panics on a duration that is not positive; the duration is the
  64-bit product of the configured interval and \<open>time.Second\<close>.
\<close>

definition main_agent ::
  "stdlib \<Rightarrow> sys \<Rightarrow> string \<Rightarrow> bool \<Rightarrow> answers \<Rightarrow> world \<Rightarrow> outcome \<times> world" where
  "main_agent L s configPath install ans w =
     (if install then
        (case installAgent L s ans w of
           (Some _, w1) \<Rightarrow> (Exited 1, w1)
         | (None, w1) \<Rightarrow> (Exited 0, w1))
      else case loadConfig L configPath w of
        Inl _ \<Rightarrow> (Exited 1, w)
      | Inr config \<Rightarrow>
          (case Validate L (SaasURL config) (c_LicenseKey config) (HWID config) w of
             (Inl _, w1) \<Rightarrow> (Exited 1, w1)
           | (Inr licenseInfo, w1) \<Rightarrow>
               if IsExpired L s (ExpiresAt licenseInfo) then (Exited 1, w1)
               else (let config = config\<lparr>c_ISPID := ISPID licenseInfo\<rparr>
                     in if sint (TelemetryInt config * 1000000000) \<le> 0 then (Exited 2, w1)
                        else (Running [ReportLoop config], w1))))"

text \<open>
  The reporting loop of \<open>cmd/agent/main.go\<close>: a first \<open>collectAndSend\<close> and one more
  for each tick, up to the signal. Each element of \<open>inputs\<close> is what the three
  \<open>nginx\<close> functions return on one call.
\<close>

definition ReportLoop_run ::
  "stdlib \<Rightarrow> Config
     \<Rightarrow> ((error + CacheStats) \<times> (error + SystemStats) \<times> (error + (string \<times> int64) list)) list
     \<Rightarrow> world \<Rightarrow> world" where
  "ReportLoop_run L config inputs w =
     fold (\<lambda>(cache, system, domains) w'. collectAndSend L config cache system domains w')
          inputs w"

subsection \<open>The \<open>main\<close> of the second entry point\<close>

definition VERSION :: string where
  "VERSION = ''1.0.0''"

definition SAAS_URL :: string where
  "SAAS_URL = ''http://64.23.151.140:8080''"

record flags =
  installFlag :: bool
  hwidFlag :: bool
  versionFlag :: bool
  checkUpdateFlag :: bool

text \<open>
  \<open>main\<close> up to the point where it has started its three goroutines and waits for a
  signal. The closure \<open>collectStats\<close> it hands to the telemetry loop is not an argument
  of the task: its results are the inputs of \<open>StartTelemetryLoop\<close>.
\<close>

definition main_saas :: "stdlib \<Rightarrow> sys \<Rightarrow> flags \<Rightarrow> world \<Rightarrow> outcome \<times> world" where
  "main_saas L s fl w =
     (if versionFlag fl then (Exited 0, w)
      else if hwidFlag fl then
        (case Generate L s w of Inl _ \<Rightarrow> (Exited 1, w) | Inr _ \<Rightarrow> (Exited 0, w))
      else if checkUpdateFlag fl then
        (case CheckForUpdates L SAAS_URL w of
           (Inl _, w1) \<Rightarrow> (Exited 1, w1)
         | (Inr _, w1) \<Rightarrow> (Exited 0, w1))
      else case LoadConfig w of
        Inl _ \<Rightarrow> (Exited 1, w)
      | Inr licenseKey \<Rightarrow>
          (case GetOrCreate L s w of
             ((_, Some _), w1) \<Rightarrow> (Exited 1, w1)
           | ((hardwareID, None), w1) \<Rightarrow>
               if installFlag fl then
                 (case Validate L SAAS_URL licenseKey hardwareID w1 of
                    (Inl _, w2) \<Rightarrow> (Exited 1, w2)
                  | (Inr licenseInfo, w2) \<Rightarrow>
                      if Status licenseInfo \<noteq> ''active'' then (Exited 1, w2)
                      else (Exited 0, w2))
               else
                 (case Validate L SAAS_URL licenseKey hardwareID w1 of
                    (Inl _, w2) \<Rightarrow> (Exited 1, w2)
                  | (Inr licenseInfo, w2) \<Rightarrow>
                      if Status licenseInfo \<noteq> ''active'' then (Exited 1, w2)
                      else (Running [StartupUpdateCheck SAAS_URL 30,
                                     UpdateLoop SAAS_URL 86400,
                                     TelemetryLoop licenseKey (ISPID licenseInfo) 300], w2))))"

text \<open>Running a started telemetry loop: \<open>go telemetry.StartTelemetryLoop(...)\<close>.\<close>

fun TelemetryLoop_run ::
  "stdlib \<Rightarrow> task \<Rightarrow> (error + TelemetryData) \<Rightarrow> (error + TelemetryData) list \<Rightarrow> world
     \<Rightarrow> error + world"
  where
  "TelemetryLoop_run L (TelemetryLoop saasURL ispID interval) first ticks w =
     StartTelemetryLoop L saasURL ispID (int interval) first ticks w"
| "TelemetryLoop_run L _ first ticks w = Inr w"

section \<open>What a tick of the reporter does\<close>

text \<open>
  The snapshot \<open>sendTelemetry\<close> sends on a tick, the request that carries a
  snapshot, the events of one call of \<open>Send\<close> for a snapshot (that request, or
  nothing when the snapshot cannot be marshalled), the events of a whole tick with or
  without its retry, and the requests among some events.
\<close>

definition snapshot_of :: "int64 \<Rightarrow> (error + TelemetryData) \<Rightarrow> TelemetryData" where
  "snapshot_of ispID collected =
     (case collected of Inl _ \<Rightarrow> TelemetryData_zero | Inr d0 \<Rightarrow> d0)\<lparr>t_ISPID := ispID\<rparr>"

definition telemetry_post :: "string \<Rightarrow> TelemetryData \<Rightarrow> http_request" where
  "telemetry_post saasURL d =
     \<lparr>req_method = ''POST'', req_url = saasURL @ ''/api/telemetry'', req_body = TelemetryJSON d\<rparr>"

definition send_events :: "string \<Rightarrow> TelemetryData \<Rightarrow> event list" where
  "send_events saasURL d =
     (case json_Marshal_TelemetryData d of
        Inl _ \<Rightarrow> []
      | Inr b \<Rightarrow> [HTTP \<lparr>req_method = ''POST'', req_url = saasURL @ ''/api/telemetry'',
                       req_body = b\<rparr>])"

definition tick_events :: "string \<Rightarrow> TelemetryData \<Rightarrow> bool \<Rightarrow> event list" where
  "tick_events saasURL d retry =
     send_events saasURL d @ (if retry then Sleep 5 # send_events saasURL d else [])"

fun requests :: "event list \<Rightarrow> http_request list" where
  "requests [] = []"
| "requests (HTTP r # es) = r # requests es"
| "requests (Sleep n # es) = requests es"
| "requests (Restart # es) = requests es"

text \<open>The snapshot \<open>collectAndSend\<close> builds from what was collected.\<close>

definition report_snapshot :: "Config \<Rightarrow> CacheStats \<Rightarrow> (error + SystemStats) \<Rightarrow> TelemetryData" where
  "report_snapshot config cacheStats system =
     (let sysStats = (case system of
                        Inl _ \<Rightarrow> \<lparr>ss_CPUUsage = 0, ss_MemoryUsage = 0\<rparr>
                      | Inr st \<Rightarrow> st)
      in \<lparr>t_ISPID = c_ISPID config,
          CacheHits = cs_Hits cacheStats,
          CacheMisses = cs_Misses cacheStats,
          BandwidthSaved = cs_Hits cacheStats * 2,
          TotalRequests = cs_TotalRequests cacheStats,
          CacheSizeUsed = cs_CacheSizeUsed cacheStats,
          CPUUsage = ss_CPUUsage sysStats,
          MemoryUsage = ss_MemoryUsage sysStats\<rparr>)"

section \<open>Sample inputs\<close>

text \<open>
  A library instance, a host and a world on which the model is evaluated. The digest is
  a stand-in of the right length, the parser knows two timestamps (with their true
  instants), and the decoders know the four response bodies below.
\<close>

definition body_active_expired :: string where
  "body_active_expired =
     ''{success:true,data:{isp_id:7,status:active,expires_at:2000-01-01T00:00:00Z}}''"

definition body_suspended_future :: string where
  "body_suspended_future =
     ''{success:true,data:{isp_id:7,status:suspended,expires_at:2999-01-01T00:00:00Z}}''"

definition body_active_future :: string where
  "body_active_future =
     ''{success:true,data:{isp_id:7,status:active,expires_at:2999-01-01T00:00:00Z}}''"

definition body_version_099 :: string where
  "body_version_099 =
     ''{success:true,data:{id:3,version:0.9.9,download_url:http://cdn.example/isp-agent}}''"

definition sample_config :: Config where
  "sample_config =
     \<lparr>SaasURL = ''http://saas.example'', c_LicenseKey = ''KEY-1'', ISPName = ''ISP One'',
      ServerIP = ''192.0.2.1'', HWID = ''ISP-00'', c_ISPID = 0, TelemetryInt = 60\<rparr>"

definition sample_lib :: stdlib where
  "sample_lib =
     \<lparr>md5_Sum = (\<lambda>data. replicate 16 (of_nat (length data))),
      time_Parse_RFC3339 =
        (\<lambda>t. if t = ''2000-01-01T00:00:00Z'' then Inr 946684800000000000
             else if t = ''2999-01-01T00:00:00Z'' then Inr 32472144000000000000
             else Inl (Msg ''parsing time'')),
      json_Decode_ValidateResponse =
        (\<lambda>b. if b = body_active_expired
             then Inr \<lparr>v_Success = True,
                       v_Data = \<lparr>LicenseKey = [], ISPID = 7,
                                 ExpiresAt = ''2000-01-01T00:00:00Z'', Modules = [],
                                 Status = ''active''\<rparr>,
                       v_Error = []\<rparr>
             else if b = body_suspended_future
             then Inr \<lparr>v_Success = True,
                       v_Data = \<lparr>LicenseKey = [], ISPID = 7,
                                 ExpiresAt = ''2999-01-01T00:00:00Z'', Modules = [],
                                 Status = ''suspended''\<rparr>,
                       v_Error = []\<rparr>
             else if b = body_active_future
             then Inr \<lparr>v_Success = True,
                       v_Data = \<lparr>LicenseKey = [], ISPID = 7,
                                 ExpiresAt = ''2999-01-01T00:00:00Z'', Modules = [],
                                 Status = ''active''\<rparr>,
                       v_Error = []\<rparr>
             else Inl (Msg ''invalid character'')),
      json_Decode_APIResponse =
        (\<lambda>b. if b = body_version_099
             then Inr \<lparr>a_Success = True,
                       a_Data = \<lparr>ID = 3, Version = ''0.9.9'',
                                 DownloadURL = ''http://cdn.example/isp-agent'',
                                 Checksum = [], ReleaseNotes = [], IsStable = False,
                                 CreatedAt = 0\<rparr>,
                       a_Error = []\<rparr>
             else Inl (Msg ''invalid character'')),
      json_Decode_Response = (\<lambda>b. \<lparr>r_Success = False, r_Message = [], r_Error = []\<rparr>),
      json_Unmarshal_Config =
        (\<lambda>b. if b = ''config.json'' then Inr sample_config else Inl (Msg ''invalid character'')),
      json_MarshalIndent_Config = (\<lambda>c. ''config.json'')\<rparr>"

definition sample_sys :: sys where
  "sample_sys =
     \<lparr>os_Executable = Inr ''/usr/local/bin/isp-agent'',
      os_Hostname = Inr ''cache01'',
      ip_link_ether = Inr (''52:54:00:12:34:56'' @ [CHR 0x0A]),
      write_denied = (\<lambda>path. False),
      copy_fault = None,
      chmod_denied = (\<lambda>path. False),
      rename_denied = (\<lambda>src dst. False),
      time_Now = 1767225600000000000\<rparr>"

definition sample_world :: world where
  "sample_world =
     \<lparr>files = [''/etc/machine-id'' \<mapsto> ''4c4c4544'' @ [CHR 0x0A],
               ''/etc/isp-agent/license.key'' \<mapsto> ''KEY-1'' @ [CHR 0x0A],
               ''/etc/isp-agent/config.json'' \<mapsto> ''config.json'',
               ''/usr/local/bin/isp-agent'' \<mapsto> ''old binary''],
      replies = [],
      trace = []\<rparr>"

text \<open>The sample world with a cached identity file of content \<open>c\<close>.\<close>

definition cached_world :: "string \<Rightarrow> world" where
  "cached_world c = sample_world\<lparr>files := (files sample_world)(''/etc/isp-agent/hwid'' \<mapsto> c)\<rparr>"

text \<open>
  A world in which the version endpoint answers with version 0.9.9, and that version.
\<close>

definition version_world :: world where
  "version_world = sample_world\<lparr>replies := [Inr \<lparr>StatusCode = 200, Body = body_version_099\<rparr>]\<rparr>"

definition version_099 :: VersionInfo where
  "version_099 =
     \<lparr>ID = 3, Version = ''0.9.9'', DownloadURL = ''http://cdn.example/isp-agent'',
      Checksum = [], ReleaseNotes = [], IsStable = False, CreatedAt = 0\<rparr>"

text \<open>
  A world in which the download succeeds, a host on which the renames onto the
  executable's path fail (the install rename and the rollback rename), and a host on
  which only the rename of the downloaded file fails.
\<close>

definition download_world :: world where
  "download_world = sample_world\<lparr>replies := [Inr \<lparr>StatusCode = 200, Body = ''new binary''\<rparr>]\<rparr>"

definition target_denied_sys :: sys where
  "target_denied_sys = sample_sys\<lparr>rename_denied := (\<lambda>src dst. dst = ''/usr/local/bin/isp-agent'')\<rparr>"

definition install_denied_sys :: sys where
  "install_denied_sys =
     sample_sys\<lparr>rename_denied := (\<lambda>src dst. src = ''/usr/local/bin/isp-agent.new'')\<rparr>"

text \<open>
  A world in which the first two requests time out and the third is accepted, two
  snapshots, and the snapshot sent when collection fails under tenant 7.
\<close>

definition flaky_world :: world where
  "flaky_world =
     sample_world\<lparr>replies := [Inl (OsError ''timeout''), Inl (OsError ''timeout''),
                              Inr \<lparr>StatusCode = 200, Body = []\<rparr>]\<rparr>"

definition snapshot_10 :: TelemetryData where
  "snapshot_10 = TelemetryData_zero\<lparr>CacheHits := 10, TotalRequests := 10\<rparr>"

definition snapshot_20 :: TelemetryData where
  "snapshot_20 = TelemetryData_zero\<lparr>CacheHits := 20, TotalRequests := 20\<rparr>"

definition zero_snapshot_7 :: TelemetryData where
  "zero_snapshot_7 =
     \<lparr>t_ISPID = 7, CacheHits = 0, CacheMisses = 0, BandwidthSaved = 0, TotalRequests = 0,
      CacheSizeUsed = 0, CPUUsage = 0, MemoryUsage = 0\<rparr>"

text \<open>
  The sample world in which the next request is answered with status 200 and the given
  body; a run of the second entry point with no flag set; empty install answers.
\<close>

definition reply_world :: "string \<Rightarrow> world" where
  "reply_world b = sample_world\<lparr>replies := [Inr \<lparr>StatusCode = 200, Body = b\<rparr>]\<rparr>"

definition no_flags :: flags where
  "no_flags = \<lparr>installFlag = False, hwidFlag = False, versionFlag = False, checkUpdateFlag = False\<rparr>"

definition no_answers :: answers where
  "no_answers = \<lparr>in_saasURL = [], in_licenseKey = [], in_ispName = [], in_serverIP = []\<rparr>"

text \<open>
  The sample world in which the license request is answered with an active license that
  expires in 2999 and the request after it is accepted.
\<close>

definition healthy_world :: world where
  "healthy_world =
     sample_world\<lparr>replies := [Inr \<lparr>StatusCode = 200, Body = body_active_future\<rparr>,
                              Inr \<lparr>StatusCode = 200, Body = []\<rparr>]\<rparr>"

definition sample_cache :: CacheStats where
  "sample_cache =
     \<lparr>cs_Hits = 10, cs_Misses = 0, BytesServed = 0, cs_CacheSizeUsed = 0, cs_TotalRequests = 10\<rparr>"

text \<open>
  The configuration \<open>cmd/agent/main.go\<close> runs under after a license of tenant 7, idle
  system statistics, and the snapshot \<open>collectAndSend\<close> builds from them and the
  sample cache statistics.
\<close>

definition licensed_config :: Config where
  "licensed_config = sample_config\<lparr>c_ISPID := 7\<rparr>"

definition idle_system :: SystemStats where
  "idle_system = \<lparr>ss_CPUUsage = 0, ss_MemoryUsage = 0\<rparr>"

definition sample_report :: TelemetryData where
  "sample_report =
     \<lparr>t_ISPID = 7, CacheHits = 10, CacheMisses = 0, BandwidthSaved = 20, TotalRequests = 10,
      CacheSizeUsed = 0, CPUUsage = 0, MemoryUsage = 0\<rparr>"

section \<open>Trimming and the format of an identity\<close>









section \<open>The identity manager\<close>

lemma Generate_eq:
  "Generate L s w = Inr (''ISP-'' @ sprintf_X (md5_Sum L (Generate_machineID s w @ ''-'' @ Generate_mac s)))"
  by (simp add: Generate_def Generate_combined_def Let_def del: append.simps)

lemma Load_cases:
  "Load w = (case files w ''/etc/isp-agent/hwid'' of None \<Rightarrow> Inl (OsError ''open: no such file or directory'') | Some c \<Rightarrow> Inr (TrimSpace c))"
  by (simp add: Load_def os_ReadFile_def split: option.splits)

lemma GetOrCreate_cached_hit:
  assumes "files w ''/etc/isp-agent/hwid'' = Some c" and "TrimSpace c \<noteq> []"
  shows "GetOrCreate L s w = ((TrimSpace c, None), w)"
  using assms by (simp add: GetOrCreate_def Load_cases Let_def)

lemma GetOrCreate_blank_cache:
  assumes "files w ''/etc/isp-agent/hwid'' = Some c" and "TrimSpace c = []"
  shows "GetOrCreate L s w =
           (if write_denied s ''/etc/isp-agent/hwid''
            then ((projr (Generate L s w), Some (OsError ''open: permission denied'')), w)
            else ((projr (Generate L s w), None),
                  w\<lparr>files := (files w)(''/etc/isp-agent/hwid'' \<mapsto> projr (Generate L s w))\<rparr>))"
  using assms
  by (simp add: GetOrCreate_def Load_cases Let_def Save_def os_WriteFile_def Generate_eq
           del: append.simps)





text \<open>
  Claim C8 as the specification states it fails: \<open>Load\<close> trims the stored value. A
  cached file that ends in a newline is returned without the newline, and a cached file
  that is not empty but holds only white space is not used at all: the identity is
  derived again.
\<close>

theorem GetOrCreate_cached_counterexample:
  "files (cached_world (''ISP-ABC'' @ [CHR 0x0A]))
       ''/etc/isp-agent/hwid'' = Some (''ISP-ABC'' @ [CHR 0x0A])
   \<and> fst (GetOrCreate sample_lib sample_sys
            (cached_world (''ISP-ABC'' @ [CHR 0x0A])))
       = (''ISP-ABC'', None)
   \<and> ''ISP-ABC'' \<noteq> ''ISP-ABC'' @ [CHR 0x0A]
   \<and> files (cached_world [CHR 0x20, CHR 0x0A])
       ''/etc/isp-agent/hwid'' = Some [CHR 0x20, CHR 0x0A]
   \<and> fst (GetOrCreate sample_lib sample_sys
            (cached_world [CHR 0x20, CHR 0x0A]))
       = (''ISP-1A1A1A1A1A1A1A1A1A1A1A1A1A1A1A1A'', None)"
  by code_simp

text \<open>
  Claim C8, amended. Once a cached identity file exists whose content is not empty
  after the surrounding white space is trimmed, \<open>GetOrCreate\<close> returns that
  trimmed content with no error and changes nothing; a second call returns the
  identical string. The result is the same for every library and host (\<open>L'\<close>,
  \<open>s'\<close>), the only inputs of a derivation: none takes place. A cached file that
  holds nothing but white space is not used: the identity returned is the one
  \<open>Generate\<close> derives, and it replaces the blank content unless the write is refused.
\<close>

theorem GetOrCreate_idempotent:
  "(files w ''/etc/isp-agent/hwid'' = Some c \<and> TrimSpace c \<noteq> []
      \<longrightarrow> GetOrCreate L s w = ((TrimSpace c, None), w)
          \<and> GetOrCreate L' s' (snd (GetOrCreate L s w)) = ((TrimSpace c, None), w))
   \<and> (files w ''/etc/isp-agent/hwid'' = Some c \<and> TrimSpace c = []
      \<longrightarrow> fst (fst (GetOrCreate L s w)) = projr (Generate L s w)
          \<and> Generate L s w
              = Inr (''ISP-'' @ sprintf_X (md5_Sum L (Generate_machineID s w @ ''-''
                                                       @ Generate_mac s)))
          \<and> (\<not> write_denied s ''/etc/isp-agent/hwid''
                \<longrightarrow> files (snd (GetOrCreate L s w)) ''/etc/isp-agent/hwid''
                      = Some (projr (Generate L s w))))"
proof (intro conjI impI)
  assume "files w ''/etc/isp-agent/hwid'' = Some c \<and> TrimSpace c \<noteq> []"
  then show "GetOrCreate L s w = ((TrimSpace c, None), w)"
    by (simp add: GetOrCreate_cached_hit)
next
  assume "files w ''/etc/isp-agent/hwid'' = Some c \<and> TrimSpace c \<noteq> []"
  then show "GetOrCreate L' s' (snd (GetOrCreate L s w)) = ((TrimSpace c, None), w)"
    by (simp add: GetOrCreate_cached_hit)
next
  assume "files w ''/etc/isp-agent/hwid'' = Some c \<and> TrimSpace c = []"
  then show "fst (fst (GetOrCreate L s w)) = projr (Generate L s w)"
    by (simp add: GetOrCreate_blank_cache)
next
  show "Generate L s w
          = Inr (''ISP-'' @ sprintf_X (md5_Sum L (Generate_machineID s w @ ''-''
                                                   @ Generate_mac s)))"
    by (rule Generate_eq)
next
  assume "files w ''/etc/isp-agent/hwid'' = Some c \<and> TrimSpace c = []"
    and "\<not> write_denied s ''/etc/isp-agent/hwid''"
  then show "files (snd (GetOrCreate L s w)) ''/etc/isp-agent/hwid''
               = Some (projr (Generate L s w))"
    by (simp add: GetOrCreate_blank_cache)
qed

theorem GetOrCreate_idempotent_witness:
  "files (cached_world (''ISP-ABC'' @ [CHR 0x0A]))
       ''/etc/isp-agent/hwid'' = Some (''ISP-ABC'' @ [CHR 0x0A])
   \<and> TrimSpace (''ISP-ABC'' @ [CHR 0x0A]) = ''ISP-ABC''
   \<and> GetOrCreate sample_lib sample_sys
         (cached_world (''ISP-ABC'' @ [CHR 0x0A]))
       = ((''ISP-ABC'', None),
          cached_world (''ISP-ABC'' @ [CHR 0x0A]))
   \<and> GetOrCreate sample_lib sample_sys
         (snd (GetOrCreate sample_lib sample_sys
            (cached_world (''ISP-ABC'' @ [CHR 0x0A]))))
       = ((''ISP-ABC'', None),
          cached_world (''ISP-ABC'' @ [CHR 0x0A]))
   \<and> files (cached_world [CHR 0x20, CHR 0x0A]) ''/etc/isp-agent/hwid''
       = Some [CHR 0x20, CHR 0x0A]
   \<and> TrimSpace [CHR 0x20, CHR 0x0A] = []
   \<and> \<not> write_denied sample_sys ''/etc/isp-agent/hwid''
   \<and> Generate sample_lib sample_sys (cached_world [CHR 0x20, CHR 0x0A])
       = Inr ''ISP-1A1A1A1A1A1A1A1A1A1A1A1A1A1A1A1A''
   \<and> fst (fst (GetOrCreate sample_lib sample_sys (cached_world [CHR 0x20, CHR 0x0A])))
       = ''ISP-1A1A1A1A1A1A1A1A1A1A1A1A1A1A1A1A''
   \<and> files (snd (GetOrCreate sample_lib sample_sys (cached_world [CHR 0x20, CHR 0x0A])))
         ''/etc/isp-agent/hwid''
       = Some ''ISP-1A1A1A1A1A1A1A1A1A1A1A1A1A1A1A1A''"
proof -
  let ?w = "cached_world (''ISP-ABC'' @ [CHR 0x0A])"
  let ?b = "cached_world [CHR 0x20, CHR 0x0A]"
  let ?h = "''ISP-1A1A1A1A1A1A1A1A1A1A1A1A1A1A1A1A''"
  have f: "files ?w ''/etc/isp-agent/hwid'' = Some (''ISP-ABC'' @ [CHR 0x0A])"
    by (simp add: cached_world_def)
  have t: "TrimSpace (''ISP-ABC'' @ [CHR 0x0A]) = ''ISP-ABC''"
    by code_simp
  then have ne: "TrimSpace (''ISP-ABC'' @ [CHR 0x0A]) \<noteq> []"
    by simp
  from GetOrCreate_idempotent
         [of ?w "''ISP-ABC'' @ [CHR 0x0A]" sample_lib sample_sys sample_lib sample_sys] f ne
  have "GetOrCreate sample_lib sample_sys ?w = ((TrimSpace (''ISP-ABC'' @ [CHR 0x0A]), None), ?w)
        \<and> GetOrCreate sample_lib sample_sys (snd (GetOrCreate sample_lib sample_sys ?w))
            = ((TrimSpace (''ISP-ABC'' @ [CHR 0x0A]), None), ?w)"
    by blast
  with t have hit: "GetOrCreate sample_lib sample_sys ?w = ((''ISP-ABC'', None), ?w)
        \<and> GetOrCreate sample_lib sample_sys (snd (GetOrCreate sample_lib sample_sys ?w))
            = ((''ISP-ABC'', None), ?w)"
    by simp
  have fb: "files ?b ''/etc/isp-agent/hwid'' = Some [CHR 0x20, CHR 0x0A]"
    by (simp add: cached_world_def)
  have tb: "TrimSpace [CHR 0x20, CHR 0x0A] = []"
    by code_simp
  have wd: "\<not> write_denied sample_sys ''/etc/isp-agent/hwid''"
    by (simp add: sample_sys_def)
  have g: "Generate sample_lib sample_sys ?b = Inr ?h"
    by code_simp
  from GetOrCreate_idempotent
         [of ?b "[CHR 0x20, CHR 0x0A]" sample_lib sample_sys sample_lib sample_sys] fb tb wd
  have "fst (fst (GetOrCreate sample_lib sample_sys ?b)) = projr (Generate sample_lib sample_sys ?b)
        \<and> files (snd (GetOrCreate sample_lib sample_sys ?b)) ''/etc/isp-agent/hwid''
            = Some (projr (Generate sample_lib sample_sys ?b))"
    by blast
  with g have blank: "fst (fst (GetOrCreate sample_lib sample_sys ?b)) = ?h
        \<and> files (snd (GetOrCreate sample_lib sample_sys ?b)) ''/etc/isp-agent/hwid'' = Some ?h"
    by simp
  from f t hit fb tb wd g blank show ?thesis by blast
qed

text \<open>
  Claim C9 as the specification states it fails: when the command that discovers the
  address cannot be run, the second input of the digest is the word \<open>unknown\<close>, not
  the all-zero address.
\<close>

theorem Generate_mac_counterexample:
  "ip_link_ether (sample_sys\<lparr>ip_link_ether := Inl (OsError ''exec: sh: not found'')\<rparr>)
     = Inl (OsError ''exec: sh: not found'')
   \<and> Generate_mac (sample_sys\<lparr>ip_link_ether := Inl (OsError ''exec: sh: not found'')\<rparr>)
     = ''unknown''
   \<and> Generate_combined (sample_sys\<lparr>ip_link_ether := Inl (OsError ''exec: sh: not found'')\<rparr>)
        sample_world = ''4c4c4544-unknown''
   \<and> ''4c4c4544-unknown'' \<noteq> ''4c4c4544-00:00:00:00:00:00''"
  by code_simp

text \<open>
  Claim C9, amended. When the discovery command runs and prints nothing but white
  space, the second input of the digest is the placeholder \<open>00:00:00:00:00:00\<close>;
  when it prints an address, that address trimmed; when the command fails, the word
  \<open>unknown\<close>.
\<close>

theorem Generate_mac_fallbacks:
  "(ip_link_ether s = Inr out \<and> TrimSpace out = [] \<longrightarrow> Generate_mac s = ''00:00:00:00:00:00'')
   \<and> (ip_link_ether s = Inr out \<and> TrimSpace out \<noteq> [] \<longrightarrow> Generate_mac s = TrimSpace out)
   \<and> (ip_link_ether s = Inl e \<longrightarrow> Generate_mac s = ''unknown'')
   \<and> Generate L s w =
       Inr (''ISP-'' @ sprintf_X (md5_Sum L (Generate_machineID s w @ ''-'' @ Generate_mac s)))"
  by (simp add: Generate_eq Generate_mac_def getMACAddress_def Let_def del: append.simps)

theorem Generate_mac_fallbacks_witness:
  "ip_link_ether (sample_sys\<lparr>ip_link_ether := Inr [CHR 0x0A]\<rparr>) = Inr [CHR 0x0A]
   \<and> TrimSpace [CHR 0x0A] = []
   \<and> Generate_mac (sample_sys\<lparr>ip_link_ether := Inr [CHR 0x0A]\<rparr>) = ''00:00:00:00:00:00''
   \<and> ip_link_ether sample_sys = Inr (''52:54:00:12:34:56'' @ [CHR 0x0A])
   \<and> TrimSpace (''52:54:00:12:34:56'' @ [CHR 0x0A]) = ''52:54:00:12:34:56''
   \<and> Generate_mac sample_sys = ''52:54:00:12:34:56''
   \<and> ip_link_ether (sample_sys\<lparr>ip_link_ether := Inl (OsError ''exec'')\<rparr>) = Inl (OsError ''exec'')
   \<and> Generate_mac (sample_sys\<lparr>ip_link_ether := Inl (OsError ''exec'')\<rparr>) = ''unknown''"
proof -
  let ?s1 = "sample_sys\<lparr>ip_link_ether := Inr [CHR 0x0A]\<rparr>"
  let ?s3 = "sample_sys\<lparr>ip_link_ether := Inl (OsError ''exec'')\<rparr>"
  have a1: "ip_link_ether ?s1 = Inr [CHR 0x0A]" by simp
  have b1: "TrimSpace [CHR 0x0A] = []" by code_simp
  have a2: "ip_link_ether sample_sys = Inr (''52:54:00:12:34:56'' @ [CHR 0x0A])"
    by (simp add: sample_sys_def)
  have b2: "TrimSpace (''52:54:00:12:34:56'' @ [CHR 0x0A]) = ''52:54:00:12:34:56''" by code_simp
  then have b2': "TrimSpace (''52:54:00:12:34:56'' @ [CHR 0x0A]) \<noteq> []" by simp
  have a3: "ip_link_ether ?s3 = Inl (OsError ''exec'')" by simp
  from Generate_mac_fallbacks [of ?s1 "[CHR 0x0A]" "OsError ''exec''" sample_lib sample_world] a1 b1
  have c1: "Generate_mac ?s1 = ''00:00:00:00:00:00''" by blast
  from Generate_mac_fallbacks [of sample_sys "''52:54:00:12:34:56'' @ [CHR 0x0A]" "OsError ''exec''" sample_lib sample_world] a2 b2'
  have "Generate_mac sample_sys = TrimSpace (''52:54:00:12:34:56'' @ [CHR 0x0A])" by blast
  with b2 have c2: "Generate_mac sample_sys = ''52:54:00:12:34:56''" by simp
  from Generate_mac_fallbacks [of ?s3 "[]" "OsError ''exec''" sample_lib sample_world] a3
  have c3: "Generate_mac ?s3 = ''unknown''" by blast
  from a1 b1 c1 a2 b2 c2 a3 c3 show ?thesis by blast
qed

section \<open>The license client\<close>

text \<open>
  Claim C10. \<open>IsExpired\<close> is true for every expiry string that does not parse in
  the RFC3339 layout, and for a string that parses it is true exactly when the parsed
  instant is before the current time.
\<close>

theorem IsExpired_fail_closed:
  "(time_Parse_RFC3339 L expiresAt = Inl e \<longrightarrow> IsExpired L s expiresAt)
   \<and> (time_Parse_RFC3339 L expiresAt = Inr expiry
        \<longrightarrow> IsExpired L s expiresAt = (expiry < time_Now s))"
  by (simp add: IsExpired_def)

theorem IsExpired_fail_closed_witness:
  "time_Parse_RFC3339 sample_lib ''next year'' = Inl (Msg ''parsing time'')
   \<and> IsExpired sample_lib sample_sys ''next year''
   \<and> time_Parse_RFC3339 sample_lib ''2000-01-01T00:00:00Z'' = Inr 946684800000000000
   \<and> IsExpired sample_lib sample_sys ''2000-01-01T00:00:00Z''
   \<and> time_Parse_RFC3339 sample_lib ''2999-01-01T00:00:00Z'' = Inr 32472144000000000000
   \<and> \<not> IsExpired sample_lib sample_sys ''2999-01-01T00:00:00Z''"
proof -
  have p1: "time_Parse_RFC3339 sample_lib ''next year'' = Inl (Msg ''parsing time'')"
    by (simp add: sample_lib_def)
  have p2: "time_Parse_RFC3339 sample_lib ''2000-01-01T00:00:00Z'' = Inr 946684800000000000"
    by (simp add: sample_lib_def)
  have p3: "time_Parse_RFC3339 sample_lib ''2999-01-01T00:00:00Z'' = Inr 32472144000000000000"
    by (simp add: sample_lib_def)
  have now: "time_Now sample_sys = 1767225600000000000"
    by (simp add: sample_sys_def)
  from IsExpired_fail_closed [of sample_lib "''next year''" "Msg ''parsing time''" sample_sys 0] p1
  have c1: "IsExpired sample_lib sample_sys ''next year''" by blast
  from IsExpired_fail_closed
         [of sample_lib "''2000-01-01T00:00:00Z''" "Msg []" sample_sys 946684800000000000] p2
  have "IsExpired sample_lib sample_sys ''2000-01-01T00:00:00Z''
          = (946684800000000000 < time_Now sample_sys)"
    by blast
  with now have c2: "IsExpired sample_lib sample_sys ''2000-01-01T00:00:00Z''" by simp
  from IsExpired_fail_closed
         [of sample_lib "''2999-01-01T00:00:00Z''" "Msg []" sample_sys 32472144000000000000] p3
  have "IsExpired sample_lib sample_sys ''2999-01-01T00:00:00Z''
          = (32472144000000000000 < time_Now sample_sys)"
    by blast
  with now have c3: "\<not> IsExpired sample_lib sample_sys ''2999-01-01T00:00:00Z''" by simp
  from p1 p2 p3 c1 c2 c3 show ?thesis by blast
qed

section \<open>The update manager\<close>

text \<open>
  Claim C5. Whenever \<open>CheckForUpdates\<close> succeeds, \<open>needsUpdate\<close> is true exactly
  when the remote version string is not equal to the running build's version string,
  whatever the order of the two versions; and it succeeds with that result whenever the
  request is answered by a body that decodes with its success flag set.
\<close>

theorem CheckForUpdates_needsUpdate:
  "(fst (CheckForUpdates L saasURL w) = Inr (version, needsUpdate)
      \<longrightarrow> needsUpdate = (Version version \<noteq> CurrentVersion))
   \<and> (fst (http_Get (saasURL @ ''/api/agent/version/latest'') w) = Inr resp
        \<and> json_Decode_APIResponse L (Body resp) = Inr apiResp \<and> a_Success apiResp
      \<longrightarrow> fst (CheckForUpdates L saasURL w)
            = Inr (a_Data apiResp, Version (a_Data apiResp) \<noteq> CurrentVersion))"
  by (auto simp: CheckForUpdates_def Let_def split: prod.splits sum.splits if_splits)

theorem CheckForUpdates_needsUpdate_witness:
  "fst (http_Get (SAAS_URL @ ''/api/agent/version/latest'') version_world)
     = Inr \<lparr>StatusCode = 200, Body = body_version_099\<rparr>
   \<and> json_Decode_APIResponse sample_lib body_version_099
     = Inr \<lparr>a_Success = True, a_Data = version_099, a_Error = []\<rparr>
   \<and> fst (CheckForUpdates sample_lib SAAS_URL version_world) = Inr (version_099, True)
   \<and> Version version_099 = ''0.9.9'' \<and> CurrentVersion = ''1.0.0''
   \<and> True = (Version version_099 \<noteq> CurrentVersion)"
proof -
  let ?resp = "\<lparr>StatusCode = 200, Body = body_version_099\<rparr>"
  let ?api = "\<lparr>a_Success = True, a_Data = version_099, a_Error = []\<rparr>"
  have g: "fst (http_Get (SAAS_URL @ ''/api/agent/version/latest'') version_world) = Inr ?resp"
    by code_simp
  have d: "json_Decode_APIResponse sample_lib body_version_099 = Inr ?api"
    by (simp add: sample_lib_def version_099_def)
  have v: "Version version_099 = ''0.9.9''" by (simp add: version_099_def)
  have c: "CurrentVersion = ''1.0.0''" by (simp add: CurrentVersion_def)
  note T = CheckForUpdates_needsUpdate
             [of sample_lib SAAS_URL version_world version_099 True ?resp ?api]
  from T g d
  have "fst (CheckForUpdates sample_lib SAAS_URL version_world)
          = Inr (a_Data ?api, Version (a_Data ?api) \<noteq> CurrentVersion)"
    by simp
  then have r: "fst (CheckForUpdates sample_lib SAAS_URL version_world) = Inr (version_099, True)"
    by (simp add: v c)
  with T have "True = (Version version_099 \<noteq> CurrentVersion)" by blast
  with g d r v c show ?thesis by blast
qed

lemma files_http_Get: "http_Get u w = (r, w') \<Longrightarrow> files w' = files w"
  by (auto simp: http_Get_def http_do_def split: list.splits if_splits)

lemma files_os_Create:
  "os_Create s path w = (r, w') \<Longrightarrow> p \<noteq> path \<Longrightarrow> files w' p = files w p"
  by (auto simp: os_Create_def split: if_splits)

lemma files_io_Copy:
  "io_Copy s path data w = (r, w') \<Longrightarrow> p \<noteq> path \<Longrightarrow> files w' p = files w p"
  by (auto simp: io_Copy_def split: option.splits)

lemma os_Rename_fail: "os_Rename s src dst w = (Some e, w') \<Longrightarrow> w' = w"
  by (auto simp: os_Rename_def split: if_splits option.splits)

lemma os_Rename_ok:
  "os_Rename s src dst w = (None, w') \<Longrightarrow>
     \<not> rename_denied s src dst \<and> files w src \<noteq> None
     \<and> files w' = ((files w)(src := None))(dst := files w src)"
  by (auto simp: os_Rename_def split: if_splits option.splits)

lemma os_Rename_run:
  "\<not> rename_denied s src dst \<Longrightarrow> files w src = Some d \<Longrightarrow>
     files (snd (os_Rename s src dst w)) dst = Some d"
  by (simp add: os_Rename_def)

lemma DownloadAndInstall_no_path:
  "os_Executable s = Inl e \<Longrightarrow>
     DownloadAndInstall s version w = (Some (Wrapped ''failed to get executable path'' e), w)"
  by (simp add: DownloadAndInstall_def)

lemma DownloadAndInstall_early:
  assumes exe: "os_Executable s = Inr exePath"
    and run: "DownloadAndInstall s version w = (Some (Wrapped msg e), w')"
    and msg: "msg \<noteq> ''failed to install new version''"
  shows "files w' exePath = files w exePath"
proof -
  obtain r1 w1 where g: "http_Get (DownloadURL version) w = (r1, w1)" by (cases "http_Get (DownloadURL version) w")
  have f1: "files w1 = files w" using g by (rule files_http_Get)
  show ?thesis
  proof (cases r1)
    case (Inl a)
    with exe run g f1 show ?thesis by (simp add: DownloadAndInstall_def Let_def)
  next
    case (Inr resp)
    obtain r2 w2 where c: "os_Create s (exePath @ ''.new'') w1 = (r2, w2)"
      by (cases "os_Create s (exePath @ ''.new'') w1")
    have f2: "files w2 exePath = files w exePath"
      using files_os_Create [OF c, of exePath] f1 by simp
    show ?thesis
    proof (cases r2)
      case (Some a)
      with exe run g Inr c f2 show ?thesis by (simp add: DownloadAndInstall_def Let_def)
    next
      case None
      obtain r3 w3 where cp: "io_Copy s (exePath @ ''.new'') (Body resp) w2 = (r3, w3)"
        by (cases "io_Copy s (exePath @ ''.new'') (Body resp) w2")
      have f3: "files w3 exePath = files w exePath"
        using files_io_Copy [OF cp, of exePath] f2 by simp
      show ?thesis
      proof (cases r3)
        case (Some a)
        with exe run g Inr c None cp f3 show ?thesis by (simp add: DownloadAndInstall_def Let_def)
      next
        case n3: None
        show ?thesis
        proof (cases "os_Chmod s (exePath @ ''.new'') w3")
          case (Some a)
          with exe run g Inr c None cp n3 f3 show ?thesis
            by (simp add: DownloadAndInstall_def Let_def)
        next
          case n4: None
          obtain r4 w4 where b: "os_Rename s exePath (exePath @ ''.backup'') w3 = (r4, w4)"
            by (cases "os_Rename s exePath (exePath @ ''.backup'') w3")
          show ?thesis
          proof (cases r4)
            case (Some a)
            with b have "w4 = w3" by (simp add: os_Rename_fail)
            with exe run g Inr c None cp n3 n4 b Some f3 show ?thesis
              by (simp add: DownloadAndInstall_def Let_def)
          next
            case n5: None
            obtain r5 w5 where i: "os_Rename s (exePath @ ''.new'') exePath w4 = (r5, w5)"
              by (cases "os_Rename s (exePath @ ''.new'') exePath w4")
            show ?thesis
            proof (cases r5)
              case (Some a)
              with exe run g Inr c None cp n3 n4 b n5 i msg show ?thesis
                by (simp add: DownloadAndInstall_def Let_def)
            next
              case n6: None
              with exe run g Inr c None cp n3 n4 b n5 i show ?thesis
                by (simp add: DownloadAndInstall_def Let_def)
            qed
          qed
        qed
      qed
    qed
  qed
qed

lemma DownloadAndInstall_rollback:
  assumes exe: "os_Executable s = Inr exePath"
    and run: "DownloadAndInstall s version w
                = (Some (Wrapped ''failed to install new version'' e), w')"
    and rb: "\<not> rename_denied s (exePath @ ''.backup'') exePath"
  shows "files w' exePath = files w exePath"
proof -
  from exe run obtain resp w1 w2 w3 w4 where
    g: "http_Get (DownloadURL version) w = (Inr resp, w1)" and
    c: "os_Create s (exePath @ ''.new'') w1 = (None, w2)" and
    cp: "io_Copy s (exePath @ ''.new'') (Body resp) w2 = (None, w3)" and
    b: "os_Rename s exePath (exePath @ ''.backup'') w3 = (None, w4)" and
    i: "os_Rename s (exePath @ ''.new'') exePath w4 = (Some e, w4)" and
    w': "w' = snd (os_Rename s (exePath @ ''.backup'') exePath w4)"
    by (auto simp: DownloadAndInstall_def Let_def
             split: sum.splits prod.splits option.splits dest: os_Rename_fail)
  have f3: "files w3 exePath = files w exePath"
    using files_http_Get [OF g] files_os_Create [OF c, of exePath]
          files_io_Copy [OF cp, of exePath] by simp
  from os_Rename_ok [OF b] obtain d where
    d: "files w3 exePath = Some d" and
    f4: "files w4 = ((files w3)(exePath := None))(exePath @ ''.backup'' := files w3 exePath)"
    by auto
  from f4 d have "files w4 (exePath @ ''.backup'') = Some d" by simp
  with rb have "files w' exePath = Some d" unfolding w' by (rule os_Rename_run)
  with d f3 show ?thesis by simp
qed

text \<open>
  What \<open>DownloadAndInstall\<close> guarantees on every host. When the executable's path
  cannot be resolved, nothing changes. When any other step up to and including the
  backup rename fails, the file at the executable's path is what it was before the
  call. When the final rename fails and the rollback rename goes through, the file at
  the executable's path is again what it was before the call. Every error names the
  step that failed.
\<close>

theorem DownloadAndInstall_failure:
  "(os_Executable s = Inl e0
      \<longrightarrow> DownloadAndInstall s version w
            = (Some (Wrapped ''failed to get executable path'' e0), w))
   \<and> (os_Executable s = Inr exePath
        \<and> DownloadAndInstall s version w = (Some (Wrapped msg e), w')
        \<and> msg \<noteq> ''failed to install new version''
      \<longrightarrow> files w' exePath = files w exePath)
   \<and> (os_Executable s = Inr exePath
        \<and> DownloadAndInstall s version w
            = (Some (Wrapped ''failed to install new version'' e), w')
        \<and> \<not> rename_denied s (exePath @ ''.backup'') exePath
      \<longrightarrow> files w' exePath = files w exePath)
   \<and> (DownloadAndInstall s version w = (Some err, w') \<longrightarrow> (\<exists>m e1. err = Wrapped m e1))"
proof (intro conjI impI)
  assume "os_Executable s = Inl e0"
  then show "DownloadAndInstall s version w
               = (Some (Wrapped ''failed to get executable path'' e0), w)"
    by (rule DownloadAndInstall_no_path)
next
  assume "os_Executable s = Inr exePath
          \<and> DownloadAndInstall s version w = (Some (Wrapped msg e), w')
          \<and> msg \<noteq> ''failed to install new version''"
  then show "files w' exePath = files w exePath"
    using DownloadAndInstall_early by blast
next
  assume "os_Executable s = Inr exePath
          \<and> DownloadAndInstall s version w
              = (Some (Wrapped ''failed to install new version'' e), w')
          \<and> \<not> rename_denied s (exePath @ ''.backup'') exePath"
  then show "files w' exePath = files w exePath"
    using DownloadAndInstall_rollback by blast
next
  assume "DownloadAndInstall s version w = (Some err, w')"
  then show "\<exists>m e1. err = Wrapped m e1"
    by (auto simp: DownloadAndInstall_def Let_def
             split: sum.splits prod.splits option.splits)
qed

theorem DownloadAndInstall_failure_witness:
  "os_Executable (sample_sys\<lparr>os_Executable := Inl (OsError ''readlink'')\<rparr>) = Inl (OsError ''readlink'')
   \<and> DownloadAndInstall (sample_sys\<lparr>os_Executable := Inl (OsError ''readlink'')\<rparr>)
         version_099 download_world
       = (Some (Wrapped ''failed to get executable path'' (OsError ''readlink'')), download_world)
   \<and> os_Executable (sample_sys\<lparr>copy_fault := Some 3\<rparr>) = Inr ''/usr/local/bin/isp-agent''
   \<and> fst (DownloadAndInstall (sample_sys\<lparr>copy_fault := Some 3\<rparr>) version_099 download_world)
       = Some (Wrapped ''failed to write file'' (OsError ''copy: short write''))
   \<and> files (snd (DownloadAndInstall (sample_sys\<lparr>copy_fault := Some 3\<rparr>) version_099
                    download_world)) ''/usr/local/bin/isp-agent''
       = Some ''old binary''
   \<and> os_Executable install_denied_sys = Inr ''/usr/local/bin/isp-agent''
   \<and> \<not> rename_denied install_denied_sys (''/usr/local/bin/isp-agent'' @ ''.backup'')
          ''/usr/local/bin/isp-agent''
   \<and> fst (DownloadAndInstall install_denied_sys version_099 download_world)
       = Some (Wrapped ''failed to install new version'' (OsError ''rename: permission denied''))
   \<and> files (snd (DownloadAndInstall install_denied_sys version_099 download_world))
         ''/usr/local/bin/isp-agent''
       = Some ''old binary''"
proof -
  let ?exe = "''/usr/local/bin/isp-agent''"
  let ?s1 = "sample_sys\<lparr>os_Executable := Inl (OsError ''readlink'')\<rparr>"
  let ?s2 = "sample_sys\<lparr>copy_fault := Some 3\<rparr>"
  let ?r2 = "DownloadAndInstall ?s2 version_099 download_world"
  let ?r3 = "DownloadAndInstall install_denied_sys version_099 download_world"
  have old: "files download_world ?exe = Some ''old binary''"
    by (simp add: download_world_def sample_world_def)
  have a1: "os_Executable ?s1 = Inl (OsError ''readlink'')" by simp
  have a2: "os_Executable ?s2 = Inr ?exe" by (simp add: sample_sys_def)
  have b2: "fst ?r2 = Some (Wrapped ''failed to write file'' (OsError ''copy: short write''))"
    by code_simp
  have a3: "os_Executable install_denied_sys = Inr ?exe"
    by (simp add: install_denied_sys_def sample_sys_def)
  have b3: "fst ?r3 = Some (Wrapped ''failed to install new version''
                             (OsError ''rename: permission denied''))"
    by code_simp
  have d3: "\<not> rename_denied install_denied_sys (?exe @ ''.backup'') ?exe"
    by (simp add: install_denied_sys_def)
  from DownloadAndInstall_failure [of ?s1 "OsError ''readlink''" version_099 download_world] a1
  have c1: "DownloadAndInstall ?s1 version_099 download_world
              = (Some (Wrapped ''failed to get executable path'' (OsError ''readlink'')),
                 download_world)"
    by blast
  have r2: "?r2 = (Some (Wrapped ''failed to write file'' (OsError ''copy: short write'')), snd ?r2)"
    using b2 by (metis prod.collapse)
  have m2: "''failed to write file'' \<noteq> ''failed to install new version''" by simp
  from DownloadAndInstall_failure
         [of ?s2 _ version_099 download_world ?exe "''failed to write file''"
             "OsError ''copy: short write''" "snd ?r2"] a2 r2 m2
  have "files (snd ?r2) ?exe = files download_world ?exe" by blast
  with old have c2: "files (snd ?r2) ?exe = Some ''old binary''" by simp
  have r3: "?r3 = (Some (Wrapped ''failed to install new version''
                           (OsError ''rename: permission denied'')), snd ?r3)"
    using b3 by (metis prod.collapse)
  from DownloadAndInstall_failure
         [of install_denied_sys _ version_099 download_world ?exe _
             "OsError ''rename: permission denied''" "snd ?r3"] a3 r3 d3
  have "files (snd ?r3) ?exe = files download_world ?exe" by blast
  with old have c3: "files (snd ?r3) ?exe = Some ''old binary''" by simp
  from a1 c1 a2 b2 c2 a3 d3 b3 c3 show ?thesis by blast
qed

text \<open>
  When the final rename fails and the rollback rename fails too, the call returns with
  no file at the executable's path: the old binary is at the backup path only.
\<close>

lemma DownloadAndInstall_rollback_lost:
  assumes exe: "os_Executable s = Inr exePath"
    and run: "DownloadAndInstall s version w
                = (Some (Wrapped ''failed to install new version'' e), w')"
    and rd: "rename_denied s (exePath @ ''.backup'') exePath"
  shows "files w' exePath = None \<and> files w' (exePath @ ''.backup'') = files w exePath"
proof -
  from exe run obtain resp w1 w2 w3 w4 where
    g: "http_Get (DownloadURL version) w = (Inr resp, w1)" and
    c: "os_Create s (exePath @ ''.new'') w1 = (None, w2)" and
    cp: "io_Copy s (exePath @ ''.new'') (Body resp) w2 = (None, w3)" and
    b: "os_Rename s exePath (exePath @ ''.backup'') w3 = (None, w4)" and
    w': "w' = snd (os_Rename s (exePath @ ''.backup'') exePath w4)"
    by (auto simp: DownloadAndInstall_def Let_def
             split: sum.splits prod.splits option.splits dest: os_Rename_fail)
  have f3: "files w3 exePath = files w exePath"
    using files_http_Get [OF g] files_os_Create [OF c, of exePath]
          files_io_Copy [OF cp, of exePath] by simp
  from os_Rename_ok [OF b] have
    f4: "files w4 = ((files w3)(exePath := None))(exePath @ ''.backup'' := files w3 exePath)"
    by simp
  from rd have "w' = w4" unfolding w' by (simp add: os_Rename_def)
  with f4 f3 show ?thesis by simp
qed

text \<open>
  Claim C2. A failure of the final rename must leave the executable at its original
  path byte-identical to what it was before the call. \<open>DownloadAndInstall\<close> attempts
  the rollback and drops its result: on a host where, once the backup rename is done,
  the renames onto the executable's path fail, the install rename and the rollback rename
  alike, the call returns its error with no file at the executable's path, and the old
  binary is at the backup path only.
\<close>

theorem DownloadAndInstall_rollback_failing_input:
  "os_Executable target_denied_sys = Inr ''/usr/local/bin/isp-agent''
   \<and> files download_world ''/usr/local/bin/isp-agent'' = Some ''old binary''
   \<and> \<not> rename_denied target_denied_sys ''/usr/local/bin/isp-agent''
          ''/usr/local/bin/isp-agent.backup''
   \<and> rename_denied target_denied_sys ''/usr/local/bin/isp-agent.new''
        ''/usr/local/bin/isp-agent''
   \<and> rename_denied target_denied_sys ''/usr/local/bin/isp-agent.backup''
        ''/usr/local/bin/isp-agent''
   \<and> fst (DownloadAndInstall target_denied_sys version_099 download_world)
       = Some (Wrapped ''failed to install new version'' (OsError ''rename: permission denied''))
   \<and> files (snd (DownloadAndInstall target_denied_sys version_099 download_world))
         ''/usr/local/bin/isp-agent'' = None
   \<and> files (snd (DownloadAndInstall target_denied_sys version_099 download_world))
         ''/usr/local/bin/isp-agent.backup'' = Some ''old binary''"
  by code_simp

section \<open>The telemetry reporter\<close>

lemma Send_trace: "trace (snd (Send L u d w)) = trace w @ send_events u d"
  by (auto simp: Send_def send_events_def http_Post_def http_do_def Let_def
           split: sum.splits prod.splits list.splits)

lemma Send_ok_marshal:
  "fst (Send L u d w) = None \<Longrightarrow> json_Marshal_TelemetryData d = Inr (TelemetryJSON d)"
  by (auto simp: Send_def json_Marshal_TelemetryData_def Let_def split: if_splits)

lemma sendTelemetry_eq:
  "sendTelemetry L u i c w =
     (case Send L u (snapshot_of i c) w of
        (Some _, w1) \<Rightarrow> snd (Send L u (snapshot_of i c) (time_Sleep 5 w1))
      | (None, w1) \<Rightarrow> w1)"
  unfolding sendTelemetry_def snapshot_of_def Let_def ..

lemma sendTelemetry_trace:
  "trace (sendTelemetry L u i c w)
     = trace w @ tick_events u (snapshot_of i c) (fst (Send L u (snapshot_of i c) w) \<noteq> None)"
proof (cases "Send L u (snapshot_of i c) w")
  case (Pair r w1)
  then have t1: "trace w1 = trace w @ send_events u (snapshot_of i c)"
    using Send_trace [of L u "snapshot_of i c" w] by simp
  show ?thesis
  proof (cases r)
    case None
    with Pair t1 show ?thesis by (simp add: sendTelemetry_eq tick_events_def)
  next
    case (Some e)
    with Pair t1 show ?thesis
      by (simp add: sendTelemetry_eq tick_events_def Send_trace time_Sleep_def)
  qed
qed

lemma requests_append: "requests (xs @ ys) = requests xs @ requests ys"
  by (induction xs rule: requests.induct) simp_all

lemma requests_send_events: "length (requests (send_events u d)) \<le> 1"
  by (simp add: send_events_def split: sum.splits)

lemma requests_tick_events: "length (requests (tick_events u d b)) \<le> 2"
  using requests_send_events [of u d]
  by (simp add: tick_events_def requests_append)

lemma ticker_loop_trace:
  "\<exists>bs. length bs = length cs
        \<and> trace (ticker_loop L u i cs w)
            = trace w @ concat (map (\<lambda>(b, c). tick_events u (snapshot_of i c) b) (zip bs cs))"
proof (induction cs arbitrary: w)
  case Nil
  then show ?case by simp
next
  case (Cons c cs)
  let ?w1 = "sendTelemetry L u i c w"
  let ?b = "fst (Send L u (snapshot_of i c) w) \<noteq> None"
  from Cons.IH [of ?w1] obtain bs where
    len: "length bs = length cs" and
    tr: "trace (ticker_loop L u i cs ?w1)
           = trace ?w1 @ concat (map (\<lambda>(b, c). tick_events u (snapshot_of i c) b) (zip bs cs))"
    by blast
  have "length (?b # bs) = length (c # cs)" using len by simp
  moreover have "trace (ticker_loop L u i (c # cs) w)
      = trace w @ concat (map (\<lambda>(b, c). tick_events u (snapshot_of i c) b) (zip (?b # bs) (c # cs)))"
    using tr by (simp add: sendTelemetry_trace)
  ultimately show ?case by blast
qed

lemma files_Send: "files (snd (Send L u d w)) = files w"
  by (auto simp: Send_def http_Post_def http_do_def Let_def
           split: sum.splits prod.splits list.splits)

lemma files_sendTelemetry: "files (sendTelemetry L u i c w) = files w"
proof (cases "Send L u (snapshot_of i c) w")
  case (Pair r w1)
  then have "files w1 = files w" using files_Send [of L u "snapshot_of i c" w] by simp
  with Pair show ?thesis
    by (cases r) (simp_all add: sendTelemetry_eq files_Send time_Sleep_def)
qed

text \<open>
  The reporter of package \<open>telemetry\<close> retries once, as the specification asks of
  every tick. When the first send of a tick fails, \<open>sendTelemetry\<close> pauses five
  seconds and sends the same snapshot once more, and nothing follows the retry whatever
  its result; when the first send succeeds there is one request. A tick never issues
  more than two requests and writes no file. Over the loop, the events are those of
  the ticks in order, and the events of a tick carry the snapshot collected on that tick
  only: a snapshot that failed is not sent again on a later tick. The loop panics
  before its first send when its interval is not positive.
\<close>

theorem sendTelemetry_retry_once:
  "(fst (Send L u (snapshot_of i c) w) \<noteq> None
      \<longrightarrow> trace (sendTelemetry L u i c w)
            = trace w @ send_events u (snapshot_of i c) @ [Sleep 5]
                @ send_events u (snapshot_of i c))
   \<and> (fst (Send L u (snapshot_of i c) w) = None
      \<longrightarrow> trace (sendTelemetry L u i c w) = trace w @ [HTTP (telemetry_post u (snapshot_of i c))])
   \<and> length (requests (drop (length (trace w)) (trace (sendTelemetry L u i c w)))) \<le> 2
   \<and> files (sendTelemetry L u i c w) = files w
   \<and> (0 < interval
      \<longrightarrow> (\<exists>bs w'. length bs = length (c # cs)
             \<and> StartTelemetryLoop L u i interval c cs w = Inr w'
             \<and> trace w'
                 = trace w @ concat (map (\<lambda>(b, c'). tick_events u (snapshot_of i c') b)
                                         (zip bs (c # cs)))))"
proof (intro conjI impI)
  assume "fst (Send L u (snapshot_of i c) w) \<noteq> None"
  then show "trace (sendTelemetry L u i c w)
            = trace w @ send_events u (snapshot_of i c) @ [Sleep 5]
                @ send_events u (snapshot_of i c)"
    by (simp add: sendTelemetry_trace tick_events_def)
next
  assume ok: "fst (Send L u (snapshot_of i c) w) = None"
  then have "send_events u (snapshot_of i c) = [HTTP (telemetry_post u (snapshot_of i c))]"
    using Send_ok_marshal [OF ok] by (simp add: send_events_def telemetry_post_def)
  with ok show "trace (sendTelemetry L u i c w)
                  = trace w @ [HTTP (telemetry_post u (snapshot_of i c))]"
    by (simp add: sendTelemetry_trace tick_events_def)
next
  show "length (requests (drop (length (trace w)) (trace (sendTelemetry L u i c w)))) \<le> 2"
    by (simp add: sendTelemetry_trace requests_tick_events)
next
  show "files (sendTelemetry L u i c w) = files w" by (rule files_sendTelemetry)
next
  assume "0 < interval"
  then have "StartTelemetryLoop L u i interval c cs w = Inr (ticker_loop L u i (c # cs) w)"
    by (simp add: StartTelemetryLoop_def)
  with ticker_loop_trace [of "c # cs" L u i w]
  show "\<exists>bs w'. length bs = length (c # cs)
             \<and> StartTelemetryLoop L u i interval c cs w = Inr w'
             \<and> trace w'
                 = trace w @ concat (map (\<lambda>(b, c'). tick_events u (snapshot_of i c') b)
                                         (zip bs (c # cs)))"
    by auto
qed

theorem sendTelemetry_retry_once_witness:
  "fst (Send sample_lib ''http://saas.example'' (snapshot_of 7 (Inr snapshot_10)) flaky_world) \<noteq> None
   \<and> trace (sendTelemetry sample_lib ''http://saas.example'' 7 (Inr snapshot_10) flaky_world)
       = [HTTP (telemetry_post ''http://saas.example'' (snapshot_10\<lparr>t_ISPID := 7\<rparr>)),
          Sleep 5,
          HTTP (telemetry_post ''http://saas.example'' (snapshot_10\<lparr>t_ISPID := 7\<rparr>))]
   \<and> trace (projr (StartTelemetryLoop sample_lib ''http://saas.example'' 7 300
                      (Inr snapshot_10) [Inr snapshot_20] flaky_world))
       = [HTTP (telemetry_post ''http://saas.example'' (snapshot_10\<lparr>t_ISPID := 7\<rparr>)),
          Sleep 5,
          HTTP (telemetry_post ''http://saas.example'' (snapshot_10\<lparr>t_ISPID := 7\<rparr>)),
          HTTP (telemetry_post ''http://saas.example'' (snapshot_20\<lparr>t_ISPID := 7\<rparr>))]"
proof -
  let ?u = "''http://saas.example''"
  let ?c = "Inr snapshot_10 :: error + TelemetryData"
  have f: "fst (Send sample_lib ?u (snapshot_of 7 ?c) flaky_world) \<noteq> None"
    by code_simp
  have t0: "trace flaky_world = []"
    by (simp add: flaky_world_def sample_world_def)
  have ev: "send_events ?u (snapshot_of 7 ?c)
              = [HTTP (telemetry_post ?u (snapshot_10\<lparr>t_ISPID := 7\<rparr>))]"
    by code_simp
  from sendTelemetry_retry_once [of sample_lib ?u 7 ?c flaky_world] f
  have "trace (sendTelemetry sample_lib ?u 7 ?c flaky_world)
          = trace flaky_world @ send_events ?u (snapshot_of 7 ?c) @ [Sleep 5]
              @ send_events ?u (snapshot_of 7 ?c)"
    by blast
  then have one: "trace (sendTelemetry sample_lib ?u 7 ?c flaky_world)
       = [HTTP (telemetry_post ?u (snapshot_10\<lparr>t_ISPID := 7\<rparr>)), Sleep 5,
          HTTP (telemetry_post ?u (snapshot_10\<lparr>t_ISPID := 7\<rparr>))]"
    by (simp add: t0 ev)
  have two: "trace (projr (StartTelemetryLoop sample_lib ?u 7 300 ?c [Inr snapshot_20]
                             flaky_world))
       = [HTTP (telemetry_post ?u (snapshot_10\<lparr>t_ISPID := 7\<rparr>)), Sleep 5,
          HTTP (telemetry_post ?u (snapshot_10\<lparr>t_ISPID := 7\<rparr>)),
          HTTP (telemetry_post ?u (snapshot_20\<lparr>t_ISPID := 7\<rparr>))]"
    by code_simp
  from f one two show ?thesis by blast
qed

text \<open>
  Claim C3 as the specification states it fails: when collection fails and the first
  send fails too, the tick makes two send attempts, and the snapshot they carry has the
  tenant id of the license, not zero.
\<close>

theorem sendTelemetry_collect_failure_counterexample:
  "requests (trace (sendTelemetry sample_lib ''http://saas.example'' 7
                      (Inl (Msg ''stats unavailable'')) flaky_world))
     = [telemetry_post ''http://saas.example'' zero_snapshot_7,
        telemetry_post ''http://saas.example'' zero_snapshot_7]
   \<and> t_ISPID zero_snapshot_7 \<noteq> 0"
  by code_simp

lemma snapshot_of_failure:
  "snapshot_of i (Inl e)
     = \<lparr>t_ISPID = i, CacheHits = 0, CacheMisses = 0, BandwidthSaved = 0, TotalRequests = 0,
        CacheSizeUsed = 0, CPUUsage = 0, MemoryUsage = 0\<rparr>"
  by (simp add: snapshot_of_def TelemetryData_zero_def)

lemma send_events_zero:
  "send_events u (snapshot_of i (Inl e)) = [HTTP (telemetry_post u (snapshot_of i (Inl e)))]"
  by (simp add: send_events_def json_Marshal_TelemetryData_def float_finite_def
                snapshot_of_failure telemetry_post_def)

text \<open>
  Claim C3, amended. On a tick on which collection fails, \<open>sendTelemetry\<close> still
  sends: the snapshot has every field zero except the tenant id, which is the ISP id it
  was started with; there is one request when the first send succeeds, and when it
  fails a second request with the same snapshot after a pause of five seconds.
\<close>

theorem sendTelemetry_collect_failure:
  "(fst (Send L u \<lparr>t_ISPID = i, CacheHits = 0, CacheMisses = 0, BandwidthSaved = 0,
                   TotalRequests = 0, CacheSizeUsed = 0, CPUUsage = 0, MemoryUsage = 0\<rparr> w) = None
      \<longrightarrow> trace (sendTelemetry L u i (Inl e) w)
            = trace w
              @ [HTTP (telemetry_post u
                         \<lparr>t_ISPID = i, CacheHits = 0, CacheMisses = 0, BandwidthSaved = 0,
                          TotalRequests = 0, CacheSizeUsed = 0, CPUUsage = 0, MemoryUsage = 0\<rparr>)])
   \<and> (fst (Send L u \<lparr>t_ISPID = i, CacheHits = 0, CacheMisses = 0, BandwidthSaved = 0,
                     TotalRequests = 0, CacheSizeUsed = 0, CPUUsage = 0, MemoryUsage = 0\<rparr> w) \<noteq> None
      \<longrightarrow> trace (sendTelemetry L u i (Inl e) w)
            = trace w
              @ [HTTP (telemetry_post u
                         \<lparr>t_ISPID = i, CacheHits = 0, CacheMisses = 0, BandwidthSaved = 0,
                          TotalRequests = 0, CacheSizeUsed = 0, CPUUsage = 0, MemoryUsage = 0\<rparr>),
                 Sleep 5,
                 HTTP (telemetry_post u
                         \<lparr>t_ISPID = i, CacheHits = 0, CacheMisses = 0, BandwidthSaved = 0,
                          TotalRequests = 0, CacheSizeUsed = 0, CPUUsage = 0, MemoryUsage = 0\<rparr>)])"
  using sendTelemetry_trace [of L u i "Inl e" w] send_events_zero [of u i e]
  by (simp add: tick_events_def snapshot_of_failure)

theorem sendTelemetry_collect_failure_witness:
  "fst (Send sample_lib ''http://saas.example'' zero_snapshot_7
          (sample_world\<lparr>replies := [Inr \<lparr>StatusCode = 200, Body = []\<rparr>]\<rparr>)) = None
   \<and> trace (sendTelemetry sample_lib ''http://saas.example'' 7 (Inl (Msg ''stats unavailable''))
               (sample_world\<lparr>replies := [Inr \<lparr>StatusCode = 200, Body = []\<rparr>]\<rparr>))
       = [HTTP (telemetry_post ''http://saas.example'' zero_snapshot_7)]
   \<and> fst (Send sample_lib ''http://saas.example'' zero_snapshot_7 flaky_world) \<noteq> None
   \<and> trace (sendTelemetry sample_lib ''http://saas.example'' 7 (Inl (Msg ''stats unavailable''))
               flaky_world)
       = [HTTP (telemetry_post ''http://saas.example'' zero_snapshot_7), Sleep 5,
          HTTP (telemetry_post ''http://saas.example'' zero_snapshot_7)]"
proof -
  let ?u = "''http://saas.example''"
  let ?ok = "sample_world\<lparr>replies := [Inr \<lparr>StatusCode = 200, Body = []\<rparr>]\<rparr>"
  let ?e = "Msg ''stats unavailable''"
  have a: "fst (Send sample_lib ?u zero_snapshot_7 ?ok) = None" by code_simp
  have b: "fst (Send sample_lib ?u zero_snapshot_7 flaky_world) \<noteq> None" by code_simp
  have t1: "trace ?ok = []" by (simp add: sample_world_def)
  have t2: "trace flaky_world = []" by (simp add: flaky_world_def sample_world_def)
  from sendTelemetry_collect_failure [of sample_lib ?u 7 ?ok ?e] a
  have "trace (sendTelemetry sample_lib ?u 7 (Inl ?e) ?ok)
          = trace ?ok @ [HTTP (telemetry_post ?u zero_snapshot_7)]"
    unfolding zero_snapshot_7_def by blast
  with t1 have c1: "trace (sendTelemetry sample_lib ?u 7 (Inl ?e) ?ok)
          = [HTTP (telemetry_post ?u zero_snapshot_7)]"
    by simp
  from sendTelemetry_collect_failure [of sample_lib ?u 7 flaky_world ?e] b
  have "trace (sendTelemetry sample_lib ?u 7 (Inl ?e) flaky_world)
          = trace flaky_world @ [HTTP (telemetry_post ?u zero_snapshot_7), Sleep 5,
                                 HTTP (telemetry_post ?u zero_snapshot_7)]"
    unfolding zero_snapshot_7_def by blast
  with t2 have c2: "trace (sendTelemetry sample_lib ?u 7 (Inl ?e) flaky_world)
          = [HTTP (telemetry_post ?u zero_snapshot_7), Sleep 5,
             HTTP (telemetry_post ?u zero_snapshot_7)]"
    by simp
  from a c1 b c2 show ?thesis by blast
qed

text \<open>
  The reporting loop of \<open>cmd/agent/main.go\<close> is different: when the cache statistics
  cannot be collected, \<open>collectAndSend\<close> returns without sending.
\<close>

lemma collectAndSend_skips: "collectAndSend L config (Inl e) system domains w = w"
  by (simp add: collectAndSend_def)

text \<open>
  After a failed send \<open>collectAndSend\<close> returns: the tick consists of that one call.
\<close>

lemma collectAndSend_eq:
  "collectAndSend L config (Inr cacheStats) system domains w =
     (case Send L (SaasURL config) (report_snapshot config cacheStats system) w of
        (Some _, w1) \<Rightarrow> w1
      | (None, w1) \<Rightarrow>
          (case domains of
             Inl _ \<Rightarrow> w1
           | Inr ds \<Rightarrow>
               fold (\<lambda>(domain, hits) w'.
                       snd (SendCachedSite (SaasURL config)
                              \<lparr>s_ISPID = c_ISPID config, Domain = domain, Hits = hits,
                               s_BandwidthSaved = hits * 2\<rparr> w'))
                    ds w1))"
  unfolding collectAndSend_def report_snapshot_def Let_def by simp

lemma collectAndSend_no_retry:
  assumes "fst (Send L (SaasURL config) (report_snapshot config cacheStats system) w) \<noteq> None"
  shows "collectAndSend L config (Inr cacheStats) system domains w
           = snd (Send L (SaasURL config) (report_snapshot config cacheStats system) w)"
    and "trace (collectAndSend L config (Inr cacheStats) system domains w)
           = trace w @ send_events (SaasURL config) (report_snapshot config cacheStats system)"
proof -
  obtain r w1 where p: "Send L (SaasURL config) (report_snapshot config cacheStats system) w = (r, w1)"
    by (metis prod.collapse)
  with assms obtain e where "r = Some e" by auto
  with p show 1: "collectAndSend L config (Inr cacheStats) system domains w
           = snd (Send L (SaasURL config) (report_snapshot config cacheStats system) w)"
    by (simp add: collectAndSend_eq)
  show "trace (collectAndSend L config (Inr cacheStats) system domains w)
           = trace w @ send_events (SaasURL config) (report_snapshot config cacheStats system)"
    unfolding 1 by (rule Send_trace)
qed

text \<open>
  Claim C6. A tick whose first send fails must pause and retry the send exactly once.
  The reporter of package \<open>telemetry\<close> does; the reporting loop of
  \<open>cmd/agent/main.go\<close> does not. When the control plane times out, a tick of
  \<open>collectAndSend\<close> makes its one request and ends, with no pause and no retry and
  the later answers unused, and the next tick does the same; \<open>sendTelemetry\<close> on the
  same snapshot and network makes the request, pauses five seconds and makes it again.
\<close>

theorem collectAndSend_no_retry_failing_input:
  "report_snapshot licensed_config sample_cache (Inr idle_system) = sample_report
   \<and> fst (Send sample_lib ''http://saas.example'' sample_report flaky_world)
       = Some (Wrapped ''failed to send telemetry'' (OsError ''timeout''))
   \<and> trace (collectAndSend sample_lib licensed_config (Inr sample_cache) (Inr idle_system)
               (Inl (Msg ''no domains'')) flaky_world)
       = [HTTP (telemetry_post ''http://saas.example'' sample_report)]
   \<and> replies (collectAndSend sample_lib licensed_config (Inr sample_cache) (Inr idle_system)
                 (Inl (Msg ''no domains'')) flaky_world)
       = [Inl (OsError ''timeout''), Inr \<lparr>StatusCode = 200, Body = []\<rparr>]
   \<and> trace (ReportLoop_run sample_lib licensed_config
               [(Inr sample_cache, Inr idle_system, Inl (Msg ''no domains'')),
                (Inr sample_cache, Inr idle_system, Inl (Msg ''no domains''))] flaky_world)
       = [HTTP (telemetry_post ''http://saas.example'' sample_report),
          HTTP (telemetry_post ''http://saas.example'' sample_report)]
   \<and> trace (sendTelemetry sample_lib ''http://saas.example'' 7 (Inr sample_report) flaky_world)
       = [HTTP (telemetry_post ''http://saas.example'' sample_report), Sleep 5,
          HTTP (telemetry_post ''http://saas.example'' sample_report)]"
  by code_simp

section \<open>The entry points: license gate and telemetry address\<close>

text \<open>
  What each entry point checks before it starts its loops. \<open>cmd/agent/main.go\<close>
  starts its reporting loop only under a license that \<open>IsExpired\<close> accepts; it never
  reads the status. The second entry point starts its loops only under a license whose
  status is \<open>active\<close>; it never reads the expiry, and it starts the telemetry loop with
  the license key where the base URL belongs.
\<close>

lemma main_agent_gate:
  assumes "main_agent L s path False ans w = (Running ts, w')"
  shows "\<exists>config info.
           loadConfig L path w = Inr config
           \<and> fst (Validate L (SaasURL config) (c_LicenseKey config) (HWID config) w) = Inr info
           \<and> \<not> IsExpired L s (ExpiresAt info)
           \<and> ts = [ReportLoop (config\<lparr>c_ISPID := ISPID info\<rparr>)]"
  using assms
  by (auto simp: main_agent_def Let_def split: sum.splits prod.splits if_splits)

lemma main_saas_gate:
  assumes "main_saas L s fl w = (Running ts, w')"
  shows "\<exists>licenseKey hardwareID w1 info.
           LoadConfig w = Inr licenseKey
           \<and> GetOrCreate L s w = ((hardwareID, None), w1)
           \<and> fst (Validate L SAAS_URL licenseKey hardwareID w1) = Inr info
           \<and> Status info = ''active''
           \<and> ts = [StartupUpdateCheck SAAS_URL 30, UpdateLoop SAAS_URL 86400,
                   TelemetryLoop licenseKey (ISPID info) 300]"
proof -
  from assms have nf: "\<not> versionFlag fl" "\<not> hwidFlag fl" "\<not> checkUpdateFlag fl"
    by (auto simp: main_saas_def split: if_splits sum.splits prod.splits)
  from assms nf obtain licenseKey where k: "LoadConfig w = Inr licenseKey"
    by (cases "LoadConfig w") (auto simp: main_saas_def)
  obtain hardwareID e w1 where g: "GetOrCreate L s w = ((hardwareID, e), w1)"
    by (metis prod.collapse)
  from assms nf k g have e: "e = None"
    by (cases e) (auto simp: main_saas_def)
  obtain r w2 where v: "Validate L SAAS_URL licenseKey hardwareID w1 = (r, w2)"
    by (metis prod.collapse)
  from assms nf k g e v obtain info where
    "r = Inr info" "Status info = ''active''" "\<not> installFlag fl"
    "ts = [StartupUpdateCheck SAAS_URL 30, UpdateLoop SAAS_URL 86400,
           TelemetryLoop licenseKey (ISPID info) 300]"
    by (cases r) (auto simp: main_saas_def split: if_splits)
  with k g e v show ?thesis by simp
qed

lemma main_saas_started:
  assumes "\<not> versionFlag fl" "\<not> hwidFlag fl" "\<not> checkUpdateFlag fl" "\<not> installFlag fl"
    and "LoadConfig w = Inr licenseKey"
    and "GetOrCreate L s w = ((hardwareID, None), w1)"
    and "Validate L SAAS_URL licenseKey hardwareID w1 = (Inr info, w2)"
    and "Status info = ''active''"
  shows "main_saas L s fl w
           = (Running [StartupUpdateCheck SAAS_URL 30, UpdateLoop SAAS_URL 86400,
                       TelemetryLoop licenseKey (ISPID info) 300], w2)"
  using assms by (simp add: main_saas_def)

lemma main_saas_expired_sample:
  "main_saas sample_lib sample_sys no_flags (reply_world body_active_expired)
     = (Running [StartupUpdateCheck SAAS_URL 30, UpdateLoop SAAS_URL 86400,
                 TelemetryLoop ''KEY-1'' 7 300],
        snd (Validate sample_lib SAAS_URL ''KEY-1'' ''ISP-1A1A1A1A1A1A1A1A1A1A1A1A1A1A1A1A''
               (snd (GetOrCreate sample_lib sample_sys (reply_world body_active_expired)))))"
proof -
  let ?w = "reply_world body_active_expired"
  let ?h = "''ISP-1A1A1A1A1A1A1A1A1A1A1A1A1A1A1A1A''"
  let ?w1 = "snd (GetOrCreate sample_lib sample_sys ?w)"
  let ?info = "\<lparr>LicenseKey = [], ISPID = 7, ExpiresAt = ''2000-01-01T00:00:00Z'',
                 Modules = [], Status = ''active''\<rparr>"
  have k: "LoadConfig ?w = Inr ''KEY-1''" by code_simp
  have "fst (GetOrCreate sample_lib sample_sys ?w) = (?h, None)" by code_simp
  then have g: "GetOrCreate sample_lib sample_sys ?w = ((?h, None), ?w1)"
    by (metis prod.collapse)
  have "fst (Validate sample_lib SAAS_URL ''KEY-1'' ?h ?w1) = Inr ?info" by code_simp
  then have v: "Validate sample_lib SAAS_URL ''KEY-1'' ?h ?w1
                  = (Inr ?info, snd (Validate sample_lib SAAS_URL ''KEY-1'' ?h ?w1))"
    by (metis prod.collapse)
  have "main_saas sample_lib sample_sys no_flags ?w
          = (Running [StartupUpdateCheck SAAS_URL 30, UpdateLoop SAAS_URL 86400,
                      TelemetryLoop ''KEY-1'' (ISPID ?info) 300],
             snd (Validate sample_lib SAAS_URL ''KEY-1'' ?h ?w1))"
    by (rule main_saas_started [OF _ _ _ _ k g v]) (simp_all add: no_flags_def)
  then show ?thesis by simp
qed

text \<open>
  Claim C1. A license that is not active, or whose expiry is in the past, must keep
  the loops from starting. Neither entry point enforces both halves: under an active
  license that expired in 2000 the second entry point starts its three loops, and under
  a suspended license that expires in 2999 \<open>cmd/agent/main.go\<close> enters its reporting
  loop.
\<close>

theorem license_gate_failing_inputs:
  "json_Decode_ValidateResponse sample_lib body_active_expired
     = Inr \<lparr>v_Success = True,
            v_Data = \<lparr>LicenseKey = [], ISPID = 7, ExpiresAt = ''2000-01-01T00:00:00Z'',
                      Modules = [], Status = ''active''\<rparr>,
            v_Error = []\<rparr>
   \<and> IsExpired sample_lib sample_sys ''2000-01-01T00:00:00Z''
   \<and> fst (main_saas sample_lib sample_sys no_flags (reply_world body_active_expired))
       = Running [StartupUpdateCheck SAAS_URL 30, UpdateLoop SAAS_URL 86400,
                  TelemetryLoop ''KEY-1'' 7 300]
   \<and> json_Decode_ValidateResponse sample_lib body_suspended_future
     = Inr \<lparr>v_Success = True,
            v_Data = \<lparr>LicenseKey = [], ISPID = 7, ExpiresAt = ''2999-01-01T00:00:00Z'',
                      Modules = [], Status = ''suspended''\<rparr>,
            v_Error = []\<rparr>
   \<and> ''suspended'' \<noteq> ''active''
   \<and> fst (main_agent sample_lib sample_sys ''/etc/isp-agent/config.json'' False no_answers
            (reply_world body_suspended_future))
       = Running [ReportLoop (sample_config\<lparr>c_ISPID := 7\<rparr>)]"
proof -
  have 1: "json_Decode_ValidateResponse sample_lib body_active_expired
     = Inr \<lparr>v_Success = True,
            v_Data = \<lparr>LicenseKey = [], ISPID = 7, ExpiresAt = ''2000-01-01T00:00:00Z'',
                      Modules = [], Status = ''active''\<rparr>,
            v_Error = []\<rparr>"
    by (simp add: sample_lib_def)
  have 2: "IsExpired sample_lib sample_sys ''2000-01-01T00:00:00Z''"
    by code_simp
  have 3: "fst (main_saas sample_lib sample_sys no_flags (reply_world body_active_expired))
       = Running [StartupUpdateCheck SAAS_URL 30, UpdateLoop SAAS_URL 86400,
                  TelemetryLoop ''KEY-1'' 7 300]"
    by (simp add: main_saas_expired_sample)
  have 4: "json_Decode_ValidateResponse sample_lib body_suspended_future
     = Inr \<lparr>v_Success = True,
            v_Data = \<lparr>LicenseKey = [], ISPID = 7, ExpiresAt = ''2999-01-01T00:00:00Z'',
                      Modules = [], Status = ''suspended''\<rparr>,
            v_Error = []\<rparr>"
    by code_simp
  have 5: "''suspended'' \<noteq> ''active''" by simp
  have 6: "fst (main_agent sample_lib sample_sys ''/etc/isp-agent/config.json'' False no_answers
            (reply_world body_suspended_future))
       = Running [ReportLoop (sample_config\<lparr>c_ISPID := 7\<rparr>)]"
    by code_simp
  from 1 2 3 4 5 6 show ?thesis by blast
qed

lemma main_saas_healthy_sample:
  "main_saas sample_lib sample_sys no_flags healthy_world
     = (Running [StartupUpdateCheck SAAS_URL 30, UpdateLoop SAAS_URL 86400,
                 TelemetryLoop ''KEY-1'' 7 300],
        snd (Validate sample_lib SAAS_URL ''KEY-1'' ''ISP-1A1A1A1A1A1A1A1A1A1A1A1A1A1A1A1A''
               (snd (GetOrCreate sample_lib sample_sys healthy_world))))"
proof -
  let ?w = "healthy_world"
  let ?h = "''ISP-1A1A1A1A1A1A1A1A1A1A1A1A1A1A1A1A''"
  let ?w1 = "snd (GetOrCreate sample_lib sample_sys ?w)"
  let ?info = "\<lparr>LicenseKey = [], ISPID = 7, ExpiresAt = ''2999-01-01T00:00:00Z'',
                 Modules = [], Status = ''active''\<rparr>"
  have k: "LoadConfig ?w = Inr ''KEY-1''" by code_simp
  have "fst (GetOrCreate sample_lib sample_sys ?w) = (?h, None)" by code_simp
  then have g: "GetOrCreate sample_lib sample_sys ?w = ((?h, None), ?w1)"
    by (metis prod.collapse)
  have "fst (Validate sample_lib SAAS_URL ''KEY-1'' ?h ?w1) = Inr ?info" by code_simp
  then have v: "Validate sample_lib SAAS_URL ''KEY-1'' ?h ?w1
                  = (Inr ?info, snd (Validate sample_lib SAAS_URL ''KEY-1'' ?h ?w1))"
    by (metis prod.collapse)
  have "main_saas sample_lib sample_sys no_flags ?w
          = (Running [StartupUpdateCheck SAAS_URL 30, UpdateLoop SAAS_URL 86400,
                      TelemetryLoop ''KEY-1'' (ISPID ?info) 300],
             snd (Validate sample_lib SAAS_URL ''KEY-1'' ?h ?w1))"
    by (rule main_saas_started [OF _ _ _ _ k g v]) (simp_all add: no_flags_def)
  then show ?thesis by simp
qed

text \<open>
  Claim C4. Telemetry must be posted to \<open>/api/telemetry\<close> under the base URL that
  license validation uses. The second entry point validates against \<open>SAAS_URL\<close> and
  then starts the telemetry loop with the license key as its base URL: with the key
  \<open>KEY-1\<close> each send calls the HTTP client with \<open>KEY-1/api/telemetry\<close>, a URL
  without a scheme, so the first send and its retry both fail before anything goes out
  and the answer the control plane had ready is never used.
\<close>

theorem telemetry_base_url_failing_input:
  "LoadConfig healthy_world = Inr ''KEY-1''
   \<and> fst (main_saas sample_lib sample_sys no_flags healthy_world)
       = Running [StartupUpdateCheck SAAS_URL 30, UpdateLoop SAAS_URL 86400,
                  TelemetryLoop ''KEY-1'' 7 300]
   \<and> \<not> isl (TelemetryLoop_run sample_lib (TelemetryLoop ''KEY-1'' 7 300)
                (Inr snapshot_10) []
                (snd (main_saas sample_lib sample_sys no_flags healthy_world)))
   \<and> map req_url
         (requests (trace (projr (TelemetryLoop_run sample_lib (TelemetryLoop ''KEY-1'' 7 300)
                             (Inr snapshot_10) []
                             (snd (main_saas sample_lib sample_sys no_flags healthy_world))))))
       = [''http://64.23.151.140:8080/api/licenses/validate'', ''KEY-1/api/telemetry'',
          ''KEY-1/api/telemetry'']
   \<and> \<not> scheme_supported ''KEY-1/api/telemetry''
   \<and> replies (projr (TelemetryLoop_run sample_lib (TelemetryLoop ''KEY-1'' 7 300)
                        (Inr snapshot_10) []
                        (snd (main_saas sample_lib sample_sys no_flags healthy_world))))
       = [Inr \<lparr>StatusCode = 200, Body = []\<rparr>]"
proof -
  let ?w2 = "snd (Validate sample_lib SAAS_URL ''KEY-1'' ''ISP-1A1A1A1A1A1A1A1A1A1A1A1A1A1A1A1A''
                    (snd (GetOrCreate sample_lib sample_sys healthy_world)))"
  let ?run = "TelemetryLoop_run sample_lib (TelemetryLoop ''KEY-1'' 7 300) (Inr snapshot_10) [] ?w2"
  have k: "LoadConfig healthy_world = Inr ''KEY-1''" by code_simp
  have i: "\<not> isl ?run" by code_simp
  have r: "map req_url (requests (trace (projr ?run)))
       = [''http://64.23.151.140:8080/api/licenses/validate'', ''KEY-1/api/telemetry'',
          ''KEY-1/api/telemetry'']"
    by code_simp
  have n: "\<not> scheme_supported ''KEY-1/api/telemetry''" by code_simp
  have l: "replies (projr ?run) = [Inr \<lparr>StatusCode = 200, Body = []\<rparr>]" by code_simp
  from k i r n l show ?thesis by (simp add: main_saas_healthy_sample)
qed

text \<open>
  \<open>cmd/agent/main.go\<close> uses the configured URL for both requests.
\<close>

lemma main_agent_base_url_sample:
  "map req_url
     (requests (trace (ReportLoop_run sample_lib (sample_config\<lparr>c_ISPID := 7\<rparr>)
                         [(Inr sample_cache, Inl (Msg ''top''), Inl (Msg ''tail''))]
                         (snd (main_agent sample_lib sample_sys ''/etc/isp-agent/config.json''
                                 False no_answers healthy_world)))))
     = [''http://saas.example/api/licenses/validate'', ''http://saas.example/api/telemetry'']"
  by code_simp

end
